theory Spec2Isabelle
  imports Complex_Main "HOL-Library.Sublist" "HOL-Library.Log_Nat"
begin

section \<open>Numbers\<close>

text \<open>
  The calculator (\<^verbatim>\<open>src/src/calculator.ts\<close>) computes on JavaScript numbers. A number is
  modelled as a real number, one of the two infinities, or NaN; the operators follow
  IEEE 754 on the special values (a zero divisor gives an infinity or NaN, NaN propagates,
  every comparison with NaN is false). Zero has no sign.

  Arithmetic on finite values is exact: a finite value stands for the binary64 number that
  the code computes, from which it can differ in the last places. The exception is the two
  statements of \<^verbatim>\<open>calculateMaxPriceForDti\<close> that compute \<^verbatim>\<open>maxHousingPayment\<close>: its sign
  decides the early return, the rounding decides its sign when the exact value is zero, and
  so each operation there is rounded to binary64 (\<open>fl\<close>).
\<close>

datatype jsnum = Fin real | PosInf | NegInf | NaN

fun num_add :: "jsnum \<Rightarrow> jsnum \<Rightarrow> jsnum" where
  "num_add (Fin a) (Fin b) = Fin (a + b)"
| "num_add NaN _ = NaN"
| "num_add _ NaN = NaN"
| "num_add PosInf NegInf = NaN"
| "num_add NegInf PosInf = NaN"
| "num_add PosInf _ = PosInf"
| "num_add _ PosInf = PosInf"
| "num_add NegInf _ = NegInf"
| "num_add _ NegInf = NegInf"

fun num_neg :: "jsnum \<Rightarrow> jsnum" where
  "num_neg (Fin a) = Fin (- a)"
| "num_neg PosInf = NegInf"
| "num_neg NegInf = PosInf"
| "num_neg NaN = NaN"

fun num_mul :: "jsnum \<Rightarrow> jsnum \<Rightarrow> jsnum" where
  "num_mul (Fin a) (Fin b) = Fin (a * b)"
| "num_mul NaN _ = NaN"
| "num_mul _ NaN = NaN"
| "num_mul PosInf (Fin b) = (if b > 0 then PosInf else if b < 0 then NegInf else NaN)"
| "num_mul NegInf (Fin b) = (if b > 0 then NegInf else if b < 0 then PosInf else NaN)"
| "num_mul (Fin a) PosInf = (if a > 0 then PosInf else if a < 0 then NegInf else NaN)"
| "num_mul (Fin a) NegInf = (if a > 0 then NegInf else if a < 0 then PosInf else NaN)"
| "num_mul PosInf PosInf = PosInf"
| "num_mul PosInf NegInf = NegInf"
| "num_mul NegInf PosInf = NegInf"
| "num_mul NegInf NegInf = PosInf"

fun num_div :: "jsnum \<Rightarrow> jsnum \<Rightarrow> jsnum" where
  "num_div (Fin a) (Fin b) =
     (if b \<noteq> 0 then Fin (a / b)
      else if a > 0 then PosInf else if a < 0 then NegInf else NaN)"
| "num_div NaN _ = NaN"
| "num_div _ NaN = NaN"
| "num_div (Fin a) PosInf = Fin 0"
| "num_div (Fin a) NegInf = Fin 0"
| "num_div PosInf (Fin b) = (if b \<ge> 0 then PosInf else NegInf)"
| "num_div NegInf (Fin b) = (if b \<ge> 0 then NegInf else PosInf)"
| "num_div PosInf PosInf = NaN"
| "num_div PosInf NegInf = NaN"
| "num_div NegInf PosInf = NaN"
| "num_div NegInf NegInf = NaN"

fun num_abs :: "jsnum \<Rightarrow> jsnum" where
  "num_abs (Fin a) = Fin \<bar>a\<bar>"
| "num_abs PosInf = PosInf"
| "num_abs NegInf = PosInf"
| "num_abs NaN = NaN"

fun num_less :: "jsnum \<Rightarrow> jsnum \<Rightarrow> bool" where
  "num_less (Fin a) (Fin b) \<longleftrightarrow> a < b"
| "num_less NaN _ \<longleftrightarrow> False"
| "num_less _ NaN \<longleftrightarrow> False"
| "num_less _ NegInf \<longleftrightarrow> False"
| "num_less PosInf _ \<longleftrightarrow> False"
| "num_less NegInf _ \<longleftrightarrow> True"
| "num_less _ PosInf \<longleftrightarrow> True"

fun num_le :: "jsnum \<Rightarrow> jsnum \<Rightarrow> bool" where
  "num_le (Fin a) (Fin b) \<longleftrightarrow> a \<le> b"
| "num_le NaN _ \<longleftrightarrow> False"
| "num_le _ NaN \<longleftrightarrow> False"
| "num_le NegInf _ \<longleftrightarrow> True"
| "num_le _ PosInf \<longleftrightarrow> True"
| "num_le _ NegInf \<longleftrightarrow> False"
| "num_le PosInf _ \<longleftrightarrow> False"

text \<open>
  The operator symbols on \<open>jsnum\<close>. \<open>a \<ge> b\<close> is \<open>b \<le> a\<close> and \<open>a > b\<close> is \<open>b < a\<close>, as in
  JavaScript.
\<close>

instantiation jsnum :: "{zero, numeral, power, uminus, minus, inverse, abs, ord}"
begin

definition zero_jsnum :: jsnum where
  "0 = Fin 0"

definition one_jsnum :: jsnum where
  "1 = Fin 1"

definition plus_jsnum :: "jsnum \<Rightarrow> jsnum \<Rightarrow> jsnum" where
  "a + b = num_add a b"

definition uminus_jsnum :: "jsnum \<Rightarrow> jsnum" where
  "- a = num_neg a"

definition minus_jsnum :: "jsnum \<Rightarrow> jsnum \<Rightarrow> jsnum" where
  "a - b = num_add a (num_neg b)"

definition times_jsnum :: "jsnum \<Rightarrow> jsnum \<Rightarrow> jsnum" where
  "a * b = num_mul a b"

definition divide_jsnum :: "jsnum \<Rightarrow> jsnum \<Rightarrow> jsnum" where
  "divide_jsnum a b = num_div a b"

definition inverse_jsnum :: "jsnum \<Rightarrow> jsnum" where
  "inverse a = num_div (Fin 1) a"

definition abs_jsnum :: "jsnum \<Rightarrow> jsnum" where
  "\<bar>a\<bar> = num_abs a"

definition less_jsnum :: "jsnum \<Rightarrow> jsnum \<Rightarrow> bool" where
  "a < b \<longleftrightarrow> num_less a b"

definition less_eq_jsnum :: "jsnum \<Rightarrow> jsnum \<Rightarrow> bool" where
  "a \<le> b \<longleftrightarrow> num_le a b"

instance
proof
  fix a b c :: jsnum
  show "a + b + c = a + (b + c)"
    unfolding plus_jsnum_def by (cases a; cases b; cases c) simp_all
qed

end

fun js_max :: "jsnum \<Rightarrow> jsnum \<Rightarrow> jsnum" where
  \<comment> \<open>\<^verbatim>\<open>Math.max\<close> of two arguments\<close>
  "js_max NaN _ = NaN"
| "js_max _ NaN = NaN"
| "js_max a b = (if num_le a b then b else a)"

fun js_min :: "jsnum \<Rightarrow> jsnum \<Rightarrow> jsnum" where
  \<comment> \<open>\<^verbatim>\<open>Math.min\<close> of two arguments\<close>
  "js_min NaN _ = NaN"
| "js_min _ NaN = NaN"
| "js_min a b = (if num_le a b then a else b)"

fun js_round :: "jsnum \<Rightarrow> jsnum" where
  \<comment> \<open>\<^verbatim>\<open>Math.round\<close>: nearest integer, a tie goes up.\<close>
  "js_round (Fin x) = Fin (of_int \<lfloor>x + 1 / 2\<rfloor>)"
| "js_round v = v"

fun js_ceil :: "jsnum \<Rightarrow> jsnum" where
  "js_ceil (Fin x) = Fin (of_int \<lceil>x\<rceil>)"
| "js_ceil v = v"

subsection \<open>Rounding to binary64\<close>

definition roundHalfEven :: "real \<Rightarrow> int" where
  "roundHalfEven x =
     (let f = \<lfloor>x\<rfloor>; d = x - of_int f
      in if d < 1 / 2 then f else if d > 1 / 2 then f + 1 else if even f then f else f + 1)"

definition binade :: "real \<Rightarrow> int" where
  \<comment> \<open>For \<open>x > 0\<close>, the exponent \<open>e\<close> with \<open>2\<^sup>e \<le> x < 2\<^sup>e\<^sup>+\<^sup>1\<close>.\<close>
  "binade x =
     (if x \<ge> 1 then int (floorlog 2 (nat \<lfloor>x\<rfloor>)) - 1
      else - int (floorlog 2 (nat (\<lceil>1 / x\<rceil> - 1))))"

definition pow2 :: "int \<Rightarrow> real" where
  "pow2 e = (if e \<ge> 0 then 2 ^ nat e else 1 / 2 ^ nat (- e))"

definition fl :: "jsnum \<Rightarrow> jsnum" where
  \<comment> \<open>Round to nearest, ties to even, with 53 bits of precision, gradual underflow below
      \<open>2\<^sup>-\<^sup>1\<^sup>0\<^sup>2\<^sup>2\<close> and overflow to an infinity.\<close>
  "fl v =
     (case v of
        Fin x \<Rightarrow>
          if x = 0 then Fin 0
          else let a = \<bar>x\<bar>;
                   e = max (binade a) (- 1022);
                   q = pow2 (e - 52);
                   r = q * of_int (roundHalfEven (a / q))
               in if r \<ge> pow2 1024 then (if x > 0 then PosInf else NegInf)
                  else Fin (if x > 0 then r else - r)
      | _ \<Rightarrow> v)"

section \<open>Values\<close>

text \<open>
  A range token is looked up in an object literal, \<^verbatim>\<open>mapping[range] ?? dflt\<close>. The lookup
  finds the literal's own keys and, failing that, the members every object inherits from
  \<^verbatim>\<open>Object.prototype\<close>; such a member is a function or an object, never a number.

  A resolved value is therefore a number, \<^verbatim>\<open>null\<close> or an inherited member. An arithmetic
  or comparison operator converts its operand to a number (\<open>toNumber\<close>): \<^verbatim>\<open>null\<close> to 0, an
  inherited member to NaN. (The operator \<^verbatim>\<open>+\<close> concatenates strings when an operand is an
  inherited member; each such sum in the calculator is next used by \<^verbatim>\<open>-\<close> or \<^verbatim>\<open>/\<close>, which
  convert the string to NaN.) The functions below take the converted number where the
  source uses the value in operators only, and the value itself where the source tests it
  for truthiness or against \<^verbatim>\<open>null\<close>.
\<close>

datatype jsvalue = Number real | Null | Inherited

definition objectPrototypeKeys :: "string list" where
  "objectPrototypeKeys =
     [''constructor'', ''__defineGetter__'', ''__defineSetter__'', ''hasOwnProperty'',
      ''__lookupGetter__'', ''__lookupSetter__'', ''isPrototypeOf'', ''propertyIsEnumerable'',
      ''toString'', ''valueOf'', ''__proto__'', ''toLocaleString'']"

definition getProperty :: "(string \<times> jsvalue) list \<Rightarrow> string \<Rightarrow> jsvalue option" where
  \<comment> \<open>\<^verbatim>\<open>obj[key]\<close>; \<open>None\<close> is \<^verbatim>\<open>undefined\<close>.\<close>
  "getProperty obj key =
     (case map_of obj key of
        Some v \<Rightarrow> Some v
      | None \<Rightarrow> if key \<in> set objectPrototypeKeys then Some Inherited else None)"

definition nullish :: "jsvalue option \<Rightarrow> jsvalue \<Rightarrow> jsvalue" where
  \<comment> \<open>\<^verbatim>\<open>v ?? dflt\<close>: the default replaces \<^verbatim>\<open>undefined\<close> and \<^verbatim>\<open>null\<close> only.\<close>
  "nullish v dflt = (case v of None \<Rightarrow> dflt | Some Null \<Rightarrow> dflt | Some x \<Rightarrow> x)"

definition toNumber :: "jsvalue \<Rightarrow> jsnum" where
  "toNumber v = (case v of Number x \<Rightarrow> Fin x | Null \<Rightarrow> 0 | Inherited \<Rightarrow> NaN)"

definition truthy :: "jsvalue \<Rightarrow> bool" where
  \<comment> \<open>\<^verbatim>\<open>null\<close> and \<^verbatim>\<open>0\<close> are falsy, a function or an object is truthy.\<close>
  "truthy v = (case v of Number x \<Rightarrow> x \<noteq> 0 | Null \<Rightarrow> False | Inherited \<Rightarrow> True)"

definition orElse :: "jsvalue \<Rightarrow> jsvalue \<Rightarrow> jsvalue" where
  \<comment> \<open>\<^verbatim>\<open>a || b\<close>\<close>
  "orElse a b = (if truthy a then a else b)"

section \<open>Input\<close>

text \<open>
  \<^verbatim>\<open>ScoreInput\<close> of \<^verbatim>\<open>types.ts\<close>. The optional phase 2 fields are never read by the
  calculator and are left out.
\<close>

record ScoreInput =
  in_creditScoreRange :: "string option"
  in_annualIncome :: "string option"
  in_downPayment :: "string option"
  in_priceRange :: "string option"
  in_monthlyDebts :: "string option"
  in_firstTimeBuyer :: "bool option"
  in_veteranStatus :: "string option"

section \<open>Range resolvers\<close>

definition creditMapping :: "(string \<times> jsvalue) list" where
  "creditMapping =
     [(''below-580'', Number 550), (''580-619'', Number 600), (''620-659'', Number 640),
      (''660-699'', Number 680), (''700-739'', Number 720), (''740-plus'', Number 760),
      (''not-sure'', Null)]"

definition getCreditScore :: "string option \<Rightarrow> jsvalue" where
  "getCreditScore rangeTok =
     (case rangeTok of
        None \<Rightarrow> Null
      | Some r \<Rightarrow> if r = [] then Null else nullish (getProperty creditMapping r) Null)"

definition incomeMapping :: "(string \<times> jsvalue) list" where
  "incomeMapping =
     [(''under-40k'', Number 35000), (''40k-60k'', Number 50000), (''60k-80k'', Number 70000),
      (''80k-100k'', Number 90000), (''100k-150k'', Number 125000),
      (''150k-180k'', Number 165000), (''180k-220k'', Number 200000),
      (''220k-plus'', Number 250000)]"

definition getIncomeAmount :: "string option \<Rightarrow> jsvalue" where
  "getIncomeAmount rangeTok =
     (case rangeTok of
        None \<Rightarrow> Number 60000
      | Some r \<Rightarrow>
          if r = [] then Number 60000 else nullish (getProperty incomeMapping r) (Number 60000))"

definition priceMapping :: "(string \<times> jsvalue) list" where
  "priceMapping =
     [(''under-400k'', Number 350000), (''400k-500k'', Number 450000),
      (''500k-600k'', Number 550000), (''600k-700k'', Number 650000),
      (''700k-800k'', Number 750000), (''800k-900k'', Number 850000),
      (''900k-1m'', Number 950000), (''1m-plus'', Number 1200000)]"

definition getPriceAmount :: "string option \<Rightarrow> jsvalue" where
  "getPriceAmount rangeTok =
     (case rangeTok of
        None \<Rightarrow> Number 500000
      | Some r \<Rightarrow>
          if r = [] then Number 500000 else nullish (getProperty priceMapping r) (Number 500000))"

definition downPaymentMapping :: "(string \<times> jsvalue) list" where
  "downPaymentMapping =
     [(''under-10k'', Number 5000), (''10k-25k'', Number 17500), (''25k-50k'', Number 37500),
      (''50k-75k'', Number 62500), (''75k-100k'', Number 87500), (''100k-140k'', Number 120000),
      (''140k-180k'', Number 160000), (''180k-220k'', Number 200000),
      (''220k-260k'', Number 240000), (''260k-plus'', Number 300000)]"

definition getDownPaymentAmount :: "string option \<Rightarrow> jsvalue" where
  "getDownPaymentAmount rangeTok =
     (case rangeTok of
        None \<Rightarrow> Number 20000
      | Some r \<Rightarrow>
          if r = [] then Number 20000
          else nullish (getProperty downPaymentMapping r) (Number 20000))"

definition monthlyDebtMapping :: "(string \<times> jsvalue) list" where
  "monthlyDebtMapping =
     [(''none'', Number 0), (''under-250'', Number 125), (''250-500'', Number 375),
      (''500-1000'', Number 750), (''1000-2000'', Number 1500), (''2000-2500'', Number 2250),
      (''2500-3000'', Number 2750), (''3000-plus'', Number 3500)]"

definition getMonthlyDebtAmount :: "string option \<Rightarrow> jsvalue" where
  "getMonthlyDebtAmount rangeTok =
     (case rangeTok of
        None \<Rightarrow> Number 0
      | Some r \<Rightarrow> if r = [] then Number 0 else nullish (getProperty monthlyDebtMapping r) (Number 0))"

section \<open>Payment model\<close>

definition CURRENT_RATE :: jsnum where
  "CURRENT_RATE = 0.06"

definition estimateMonthlyPayment :: "jsnum \<Rightarrow> jsnum \<Rightarrow> jsnum" where
  \<comment> \<open>The second parameter defaults to 0.035 in the source; callers here pass it.
      \<^verbatim>\<open>Math.pow\<close> with the exponent 360 is the 360th power.\<close>
  "estimateMonthlyPayment price downPaymentPercent =
     (let downPaymentAmt = price * downPaymentPercent;
          loanAmount = price - downPaymentAmt;
          monthlyRate = CURRENT_RATE / 12;
          numPayments = (360::nat);
          mortgage = (loanAmount * (monthlyRate * (1 + monthlyRate) ^ numPayments)) /
                     ((1 + monthlyRate) ^ numPayments - 1);
          propertyTax = (price * 0.012) / 12;
          insurance = 100;
          pmi = (loanAmount * 0.008) / 12
      in mortgage + propertyTax + insurance + pmi)"

section \<open>Point-allocation scorer\<close>

definition isVeteranEligible :: "string option \<Rightarrow> bool" where
  \<comment> \<open>\<^verbatim>\<open>veteranStatus && ["active", "veteran", "guard-reserve", "spouse"].includes(veteranStatus)\<close>\<close>
  "isVeteranEligible veteranStatus =
     (case veteranStatus of
        None \<Rightarrow> False
      | Some s \<Rightarrow> s \<noteq> [] \<and> s \<in> set [''active'', ''veteran'', ''guard-reserve'', ''spouse''])"

definition calculateCreditPoints :: "jsvalue \<Rightarrow> int" where
  "calculateCreditPoints creditScore =
     (if \<not> truthy creditScore then 15
      else if toNumber creditScore \<ge> 740 then 30
      else if toNumber creditScore \<ge> 720 then 27
      else if toNumber creditScore \<ge> 700 then 24
      else if toNumber creditScore \<ge> 680 then 20
      else if toNumber creditScore \<ge> 660 then 17
      else if toNumber creditScore \<ge> 640 then 14
      else if toNumber creditScore \<ge> 620 then 10
      else if toNumber creditScore \<ge> 580 then 5
      else if toNumber creditScore \<ge> 500 then 2
      else 0)"

definition calculateDtiPoints :: "jsnum \<Rightarrow> jsnum \<Rightarrow> jsnum \<Rightarrow> int" where
  "calculateDtiPoints monthlyIncome targetPrice monthlyDebts =
     (let estimatedPayment = estimateMonthlyPayment targetPrice 0.035;
          totalObligations = estimatedPayment + monthlyDebts;
          dti = (totalObligations / monthlyIncome) * 100
      in if dti < 28 then 25
         else if dti < 36 then 22
         else if dti < 41 then 18
         else if dti < 44 then 14
         else if dti < 50 then 10
         else if dti < 57 then 5
         else 0)"

definition calculateDownPaymentPoints :: "jsnum \<Rightarrow> jsnum \<Rightarrow> string option \<Rightarrow> int" where
  "calculateDownPaymentPoints saved targetPrice veteranStatus =
     (if isVeteranEligible veteranStatus then 15
      else let percentage = (saved / targetPrice) * 100
           in if percentage \<ge> 20 then 20
              else if percentage \<ge> 15 then 17
              else if percentage \<ge> 10 then 14
              else if percentage \<ge> 5 then 10
              else if percentage \<ge> 3.5 then 7
              else if percentage \<ge> 3 then 5
              else if percentage \<ge> 1 then 3
              else 1)"

definition calculateEmploymentPoints :: int where
  "calculateEmploymentPoints = 12"

definition calculateReservesPoints :: "jsnum \<Rightarrow> jsnum \<Rightarrow> int" where
  "calculateReservesPoints saved targetPrice =
     (let downPaymentNeeded = targetPrice * 0.035;
          reserves = js_max 0 (saved - downPaymentNeeded);
          monthlyPiti = estimateMonthlyPayment targetPrice 0.035;
          months = reserves / monthlyPiti
      in if months \<ge> 6 then 10
         else if months \<ge> 4 then 8
         else if months \<ge> 3 then 6
         else if months \<ge> 2 then 4
         else if months \<ge> 1 then 2
         else 0)"

definition calculateBonusPoints :: "bool option \<Rightarrow> string option \<Rightarrow> int" where
  "calculateBonusPoints firstTimeBuyer veteranStatus =
     (let bonus = 0;
          bonus = (if isVeteranEligible veteranStatus then bonus + 10 else bonus);
          bonus = (if firstTimeBuyer = Some True then bonus + 5 else bonus)
      in bonus)"

datatype ScoreStatus =
  READY_NOW | ALMOST_READY | GETTING_CLOSE | BUILDING | EARLY_STAGE | JUST_EXPLORING

definition getStatus :: "int \<Rightarrow> ScoreStatus" where
  "getStatus score =
     (if score \<ge> 85 then READY_NOW
      else if score \<ge> 75 then ALMOST_READY
      else if score \<ge> 60 then GETTING_CLOSE
      else if score \<ge> 45 then BUILDING
      else if score \<ge> 25 then EARLY_STAGE
      else JUST_EXPLORING)"

definition getTimeline :: "int \<Rightarrow> string" where
  "getTimeline score =
     (if score \<ge> 85 then ''0-1 months''
      else if score \<ge> 75 then ''1-2 months''
      else if score \<ge> 60 then ''3-6 months''
      else if score \<ge> 45 then ''6-12 months''
      else if score \<ge> 25 then ''12-18 months''
      else ''18+ months'')"

fun getColor :: "ScoreStatus \<Rightarrow> string" where
  "getColor READY_NOW = ''red''"
| "getColor ALMOST_READY = ''orange''"
| "getColor GETTING_CLOSE = ''yellow''"
| "getColor BUILDING = ''blue''"
| "getColor EARLY_STAGE = ''blue''"
| "getColor JUST_EXPLORING = ''blue''"

section \<open>Program matcher\<close>

record ProgramDetail =
  p_name :: string
  p_eligible :: bool
  p_reason :: string
  p_benefit :: string

definition matchPrograms ::
  "jsvalue \<Rightarrow> bool option \<Rightarrow> string option \<Rightarrow> jsnum \<Rightarrow> ProgramDetail list" where
  "matchPrograms creditScore firstTimeBuyer veteranStatus income =
     (let score = toNumber (orElse creditScore (Number 650)) in
      (if isVeteranEligible veteranStatus
       then [\<lparr>p_name = ''VA Loan'', p_eligible = True, p_reason = ''Military service'',
              p_benefit = ''0% down payment, no PMI''\<rparr>]
       else []) @
      (if score \<ge> 580
       then [\<lparr>p_name = ''FHA Loan'', p_eligible = True,
              p_reason = (if score \<ge> 580 then ''Credit score qualifies'' else ''Need 580+ credit''),
              p_benefit = ''3.5% down payment''\<rparr>]
       else []) @
      (if score \<ge> 620
       then [\<lparr>p_name = ''Conventional Loan'', p_eligible = True,
              p_reason = ''Credit score qualifies'',
              p_benefit = ''Competitive rates, 3-5% down''\<rparr>]
       else []) @
      (if firstTimeBuyer = Some True \<and> score \<ge> 660 \<and> income < 141400
       then [\<lparr>p_name = ''Utah FirstHome'', p_eligible = True,
              p_reason = ''First-time buyer with qualifying credit and income'',
              p_benefit = ''Up to 6% down payment assistance''\<rparr>]
       else []) @
      (if score \<ge> 660 \<and> income < 141400
       then [\<lparr>p_name = ''Utah HomeAgain'', p_eligible = True,
              p_reason = ''Credit and income qualify'',
              p_benefit = ''Down payment assistance available''\<rparr>]
       else []))"

section \<open>Gaps and recommendations\<close>

text \<open>
  Display text that is assembled from numbers (template strings, \<^verbatim>\<open>toFixed\<close>,
  \<^verbatim>\<open>formatCurrency\<close>) is represented by the values it shows.
\<close>

datatype Severity = High | Medium | Low

datatype GapCurrent = ScoreText jsvalue | UnknownText | PercentText jsnum | HighText

record Gap =
  g_factor :: string
  g_severity :: Severity
  g_current :: GapCurrent
  g_target :: string
  g_pointsLost :: int
  g_potentialGain :: int
  g_actionRequired :: string

definition identifyGaps ::
  "jsvalue \<Rightarrow> int \<Rightarrow> int \<Rightarrow> int \<Rightarrow> jsnum \<Rightarrow> jsnum \<Rightarrow> Gap list" where
  "identifyGaps creditScore creditPoints downPaymentPoints dtiPoints saved targetPrice =
     (let creditGap =
            (if creditPoints < 20
             then [\<lparr>g_factor = ''credit'',
                    g_severity = (if creditPoints < 10 then High else Medium),
                    g_current = (if truthy creditScore then ScoreText creditScore
                                 else UnknownText),
                    g_target = ''680+'',
                    g_pointsLost = 30 - creditPoints,
                    g_potentialGain = min 10 (30 - creditPoints),
                    g_actionRequired = ''Improve credit score to unlock better rates''\<rparr>]
             else []);
          downPaymentGap =
            (if downPaymentPoints < 10
             then let percentage = (saved / targetPrice) * 100
                  in [\<lparr>g_factor = ''down_payment'',
                        g_severity = (if downPaymentPoints < 5 then High else Medium),
                        g_current = PercentText percentage,
                        g_target = ''5%+'',
                        g_pointsLost = 20 - downPaymentPoints,
                        g_potentialGain = min 7 (20 - downPaymentPoints),
                        g_actionRequired = ''Save more for down payment''\<rparr>]
             else []);
          dtiGap =
            (if dtiPoints < 14
             then [\<lparr>g_factor = ''dti'',
                    g_severity = (if dtiPoints < 5 then High else Medium),
                    g_current = HighText,
                    g_target = ''Under 43%'',
                    g_pointsLost = 25 - dtiPoints,
                    g_potentialGain = min 10 (25 - dtiPoints),
                    g_actionRequired = ''Reduce debt or increase income''\<rparr>]
             else [])
      in sort_key (\<lambda>g. - g_potentialGain g) (creditGap @ downPaymentGap @ dtiGap))"

record Recommendation =
  r_priority :: nat
  r_category :: string
  r_title :: string
  r_description :: string
  r_impactGain :: int

definition recommendationFor :: "nat \<Rightarrow> Gap \<Rightarrow> Recommendation" where
  "recommendationFor index gap =
     (if g_factor gap = ''credit''
      then \<lparr>r_priority = index + 1, r_category = ''credit'',
            r_title = ''Boost Your Credit Score'',
            r_description = ''Pay down credit cards to below 30% of limits, avoid new credit applications, and dispute any errors on your report.'',
            r_impactGain = g_potentialGain gap\<rparr>
      else if g_factor gap = ''down_payment''
      then \<lparr>r_priority = index + 1, r_category = ''savings'',
            r_title = ''Build Your Down Payment'',
            r_description = ''Set up automatic transfers to savings. Look into down payment assistance programs you may qualify for.'',
            r_impactGain = g_potentialGain gap\<rparr>
      else if g_factor gap = ''dti''
      then \<lparr>r_priority = index + 1, r_category = ''debt'',
            r_title = ''Lower Your Debt-to-Income Ratio'',
            r_description = ''Focus on paying off high-interest debt or consider a lower price point to improve your DTI ratio.'',
            r_impactGain = g_potentialGain gap\<rparr>
      else \<lparr>r_priority = index + 1, r_category = ''general'',
            r_title = ''Improve Your Profile'',
            r_description = g_actionRequired gap,
            r_impactGain = g_potentialGain gap\<rparr>)"

definition generateRecommendations :: "Gap list \<Rightarrow> Recommendation list" where
  "generateRecommendations gaps =
     map (\<lambda>(index, gap). recommendationFor index gap) (enumerate 0 gaps)"

section \<open>Down payment assistance eligibility\<close>

text \<open>The entries of \<^verbatim>\<open>PROGRAM_LIMITS\<close> that the code reads.\<close>

definition firstHome_incomeLimitLargeHousehold :: jsnum where
  "firstHome_incomeLimitLargeHousehold = 141400"

definition firstHome_minCreditScore :: jsnum where
  "firstHome_minCreditScore = 660"

definition homeAgain_incomeLimit :: jsnum where
  "homeAgain_incomeLimit = 141400"

definition homeAgain_minCreditScore :: jsnum where
  "homeAgain_minCreditScore = 660"

definition fha_minCreditScore35Down :: jsnum where
  "fha_minCreditScore35Down = 580"

definition fha_minCreditScore10Down :: jsnum where
  "fha_minCreditScore10Down = 500"

datatype BestProgram = BestVA | BestFirstHome | BestHomeAgain | BestFHA jsnum

text \<open>
  Of each program's \<^verbatim>\<open>{eligible, reason, benefit}\<close> the record keeps the flag; the
  reason and benefit are display text.
\<close>

record DPAEligibility =
  dpa_firstHome :: bool
  dpa_homeAgain :: bool
  dpa_fha :: bool
  dpa_va :: bool
  dpa_anyEligible :: bool
  dpa_bestProgram :: "BestProgram option"
  dpa_totalPotentialAssistance :: jsnum

definition checkDPAEligibility ::
  "jsvalue \<Rightarrow> jsnum \<Rightarrow> jsnum \<Rightarrow> bool option \<Rightarrow> string option \<Rightarrow> DPAEligibility" where
  "checkDPAEligibility creditScore annualIncome targetPrice firstTimeBuyer veteranStatus =
     (let score = toNumber (orElse creditScore (Number 650));
          isVeteran = isVeteranEligible veteranStatus;
          firstHomeEligible =
            (firstTimeBuyer = Some True \<and> score \<ge> firstHome_minCreditScore \<and>
             annualIncome \<le> firstHome_incomeLimitLargeHousehold);
          homeAgainEligible =
            (score \<ge> homeAgain_minCreditScore \<and> annualIncome \<le> homeAgain_incomeLimit);
          fhaEligible = (score \<ge> fha_minCreditScore10Down);
          fhaDownPercent = (if score \<ge> fha_minCreditScore35Down then 3.5 else 10);
          totalAssistance =
            (if firstHomeEligible then 0 + targetPrice * 0.06
             else if homeAgainEligible then 0 + targetPrice * 0.06
             else 0);
          bestProgram =
            (if isVeteran then Some BestVA
             else if firstHomeEligible then Some BestFirstHome
             else if homeAgainEligible then Some BestHomeAgain
             else if fhaEligible then Some (BestFHA fhaDownPercent)
             else None)
      in \<lparr>dpa_firstHome = firstHomeEligible,
          dpa_homeAgain = homeAgainEligible,
          dpa_fha = fhaEligible,
          dpa_va = isVeteran,
          dpa_anyEligible = (firstHomeEligible \<or> homeAgainEligible \<or> fhaEligible \<or> isVeteran),
          dpa_bestProgram = bestProgram,
          dpa_totalPotentialAssistance = totalAssistance\<rparr>)"

section \<open>Path forward calculations\<close>

definition calculateDebtReductionForDti :: "jsnum \<Rightarrow> jsnum \<Rightarrow> jsnum \<Rightarrow> jsnum \<Rightarrow> jsnum" where
  "calculateDebtReductionForDti monthlyIncome currentDebts housingPayment targetDti =
     (let maxTotalObligations = monthlyIncome * (targetDti / 100);
          currentTotal = housingPayment + currentDebts;
          reduction = currentTotal - maxTotalObligations
      in js_max 0 (js_round reduction))"

definition calculateIncomeForDti :: "jsnum \<Rightarrow> jsnum \<Rightarrow> jsnum \<Rightarrow> jsnum \<Rightarrow> jsnum" where
  "calculateIncomeForDti currentIncome monthlyDebts housingPayment targetDti =
     (let totalObligations = housingPayment + monthlyDebts;
          requiredIncome = totalObligations / (targetDti / 100);
          increase = requiredIncome - currentIncome
      in js_max 0 (js_round increase))"

definition calculateCurrentDti :: "jsnum \<Rightarrow> jsnum \<Rightarrow> jsnum \<Rightarrow> jsnum" where
  "calculateCurrentDti monthlyIncome monthlyDebts housingPayment =
     js_round (((housingPayment + monthlyDebts) / monthlyIncome) * 100)"

section \<open>Affordability inverter\<close>

text \<open>The loop of \<^verbatim>\<open>calculateMaxPriceForDti\<close>, by the number of iterations left.\<close>

fun priceLoop :: "nat \<Rightarrow> jsnum \<Rightarrow> jsnum \<Rightarrow> jsnum \<Rightarrow> jsnum" where
  "priceLoop 0 maxHousingPayment downPaymentPercent price = price"
| "priceLoop (Suc n) maxHousingPayment downPaymentPercent price =
     (let payment = estimateMonthlyPayment price downPaymentPercent;
          ratio = maxHousingPayment / payment;
          price = price * ratio;
          price = js_max 100000 (js_min 2000000 price)
      in priceLoop n maxHousingPayment downPaymentPercent price)"

definition calculateMaxPriceForDti :: "jsnum \<Rightarrow> jsnum \<Rightarrow> jsnum \<Rightarrow> jsnum \<Rightarrow> jsnum" where
  \<comment> \<open>The last parameter defaults to 0.035 in the source; callers here pass it. The two
      statements before the test are rounded to binary64, operation by operation.\<close>
  "calculateMaxPriceForDti monthlyIncome monthlyDebts targetDti downPaymentPercent =
     (let maxTotalObligations = fl (monthlyIncome * fl (targetDti / 100));
          maxHousingPayment = fl (maxTotalObligations - monthlyDebts)
      in if maxHousingPayment \<le> 0 then 0
         else let price = priceLoop 20 maxHousingPayment downPaymentPercent 300000
              in js_round (price / 5000) * 5000)"

section \<open>Reverse range mapping\<close>

definition getPriceRangeFromAmount :: "jsnum \<Rightarrow> string" where
  "getPriceRangeFromAmount price =
     (if price < 400000 then ''under-400k''
      else if price < 500000 then ''400k-500k''
      else if price < 600000 then ''500k-600k''
      else if price < 700000 then ''600k-700k''
      else if price < 800000 then ''700k-800k''
      else if price < 900000 then ''800k-900k''
      else if price < 1000000 then ''900k-1m''
      else ''1m-plus'')"

definition getCreditScoreRange :: "jsvalue \<Rightarrow> string option" where
  \<comment> \<open>\<open>None\<close> is \<^verbatim>\<open>null\<close>.\<close>
  "getCreditScoreRange score =
     (if score = Null then None
      else Some (if toNumber score \<ge> 740 then ''740-plus''
                 else if toNumber score \<ge> 700 then ''700-739''
                 else if toNumber score \<ge> 660 then ''660-699''
                 else if toNumber score \<ge> 620 then ''620-659''
                 else if toNumber score \<ge> 580 then ''580-619''
                 else ''below-580''))"

definition getIncomeRange :: "jsnum \<Rightarrow> string" where
  "getIncomeRange income =
     (if income \<ge> 220000 then ''220k-plus''
      else if income \<ge> 180000 then ''180k-220k''
      else if income \<ge> 150000 then ''150k-180k''
      else if income \<ge> 100000 then ''100k-150k''
      else if income \<ge> 80000 then ''80k-100k''
      else if income \<ge> 60000 then ''60k-80k''
      else if income \<ge> 40000 then ''40k-60k''
      else ''under-40k'')"

definition getPriceRange :: "jsnum \<Rightarrow> string" where
  "getPriceRange price = getPriceRangeFromAmount price"

definition getDownPaymentRange :: "jsnum \<Rightarrow> string" where
  "getDownPaymentRange amount =
     (if amount \<ge> 260000 then ''260k-plus''
      else if amount \<ge> 220000 then ''220k-260k''
      else if amount \<ge> 180000 then ''180k-220k''
      else if amount \<ge> 140000 then ''140k-180k''
      else if amount \<ge> 100000 then ''100k-140k''
      else if amount \<ge> 75000 then ''75k-100k''
      else if amount \<ge> 50000 then ''50k-75k''
      else if amount \<ge> 25000 then ''25k-50k''
      else if amount \<ge> 10000 then ''10k-25k''
      else ''under-10k'')"

definition getMonthlyDebtRange :: "jsnum \<Rightarrow> string" where
  "getMonthlyDebtRange debt =
     (if debt \<ge> 3000 then ''3000-plus''
      else if debt \<ge> 2500 then ''2500-3000''
      else if debt \<ge> 2000 then ''2000-2500''
      else if debt \<ge> 1000 then ''1000-2000''
      else if debt \<ge> 500 then ''500-1000''
      else if debt \<ge> 250 then ''250-500''
      else if debt > 0 then ''under-250''
      else ''none'')"

section \<open>Primary blocker detector\<close>

datatype SolutionType =
  ADJUST_PRICE | PAY_DOWN_DEBT | INCREASE_INCOME | SAVE_MORE | IMPROVE_CREDIT | DPA_PROGRAMS
  | COMBINATION

datatype TimelineText = FixedText string | MonthsText jsnum | MonthsAt500Text jsnum

text \<open>
  A solution keeps its tag, its action label, its timeline and its numeric payload; the
  description and impact sentences are display text.
\<close>

record Solution =
  s_type :: SolutionType
  s_actionLabel :: string
  s_timeline :: "TimelineText option"
  s_newPrice :: "jsnum option"
  s_monthlyPayment :: "jsnum option"
  s_debtReduction :: "jsnum option"
  s_incomeIncrease :: "jsnum option"

definition solution :: "SolutionType \<Rightarrow> string \<Rightarrow> Solution" where
  \<comment> \<open>A solution object with none of the optional fields.\<close>
  "solution ty label =
     \<lparr>s_type = ty, s_actionLabel = label, s_timeline = None, s_newPrice = None,
      s_monthlyPayment = None, s_debtReduction = None, s_incomeIncrease = None\<rparr>"

datatype BlockerType = DTI | DOWN_PAYMENT | CREDIT | EMPLOYMENT | RESERVES | NONE

datatype BlockerSeverity = Critical | Significant | Minor

text \<open>The headline, subheadline, current and target value of a blocker are display text.\<close>

record PrimaryBlocker =
  pb_type :: BlockerType
  pb_severity :: BlockerSeverity
  pb_solutions :: "Solution list"

definition detectPrimaryBlocker ::
  "jsvalue \<Rightarrow> int \<Rightarrow> int \<Rightarrow> int \<Rightarrow> jsnum \<Rightarrow> jsnum \<Rightarrow> jsnum \<Rightarrow> jsnum \<Rightarrow> string option \<Rightarrow> jsnum
   \<Rightarrow> bool option \<Rightarrow> PrimaryBlocker option" where
  \<comment> \<open>\<open>None\<close> is \<^verbatim>\<open>null\<close>.\<close>
  "detectPrimaryBlocker creditScore creditPoints dtiPoints downPaymentPoints monthlyIncome
     monthlyDebts targetPrice saved veteranStatus annualIncome firstTimeBuyer =
     (let dpaEligibility =
            checkDPAEligibility creditScore annualIncome targetPrice firstTimeBuyer veteranStatus;
          housingPayment = estimateMonthlyPayment targetPrice 0.035;
          currentDti = calculateCurrentDti monthlyIncome monthlyDebts housingPayment;
          downPaymentPercent = (saved / targetPrice) * 100
      in
      if currentDti > 50 then
        (let affordablePrice = calculateMaxPriceForDti monthlyIncome monthlyDebts 43 0.035;
             lowerPrice =
               (if affordablePrice > 0 \<and> affordablePrice < targetPrice
                then [(solution ADJUST_PRICE ''See homes in this range'')
                        \<lparr>s_newPrice := Some affordablePrice,
                         s_monthlyPayment :=
                           Some (js_round (estimateMonthlyPayment affordablePrice 0.035))\<rparr>]
                else []);
             debtReduction =
               calculateDebtReductionForDti monthlyIncome monthlyDebts housingPayment 43;
             payDown =
               (if debtReduction > 0 \<and> debtReduction \<le> monthlyDebts
                then [(solution PAY_DOWN_DEBT ''See payoff strategies'')
                        \<lparr>s_timeline :=
                           Some (FixedText (if debtReduction > 500 then ''6-12 months''
                                            else ''3-6 months'')),
                         s_debtReduction := Some debtReduction\<rparr>]
                else []);
             incomeIncrease =
               calculateIncomeForDti monthlyIncome monthlyDebts housingPayment 43;
             moreIncome =
               (if incomeIncrease > 0
                then [(solution INCREASE_INCOME ''Explore options'')
                        \<lparr>s_timeline := Some (FixedText ''3-6 months''),
                         s_incomeIncrease := Some incomeIncrease\<rparr>]
                else [])
         in Some \<lparr>pb_type = DTI,
                  pb_severity = (if currentDti > 57 then Critical else Significant),
                  pb_solutions = lowerPrice @ payDown @ moreIncome\<rparr>)
      else if currentDti > 43 \<and> currentDti \<le> 50 then
        (let fhaNote =
               (if dpa_fha dpaEligibility then [solution DPA_PROGRAMS ''Explore FHA options'']
                else []);
             comfortablePrice = calculateMaxPriceForDti monthlyIncome monthlyDebts 36 0.035;
             lowerPrice =
               (if comfortablePrice > 0 \<and> comfortablePrice < targetPrice * 0.9
                then [(solution ADJUST_PRICE ''See comfortable range'')
                        \<lparr>s_newPrice := Some comfortablePrice,
                         s_monthlyPayment :=
                           Some (js_round (estimateMonthlyPayment comfortablePrice 0.035))\<rparr>]
                else [])
         in Some \<lparr>pb_type = DTI, pb_severity = Minor, pb_solutions = fhaNote @ lowerPrice\<rparr>)
      else
        (let veteranEligible = isVeteranEligible veteranStatus;
             minDownPayment = (if veteranEligible then 0 else targetPrice * 0.035)
         in
         if saved < minDownPayment then
           (let shortfall = minDownPayment - saved;
                affordableWithSavings = saved / 0.035;
                lowerPrice =
                  (if affordableWithSavings \<ge> 200000
                   then [(solution ADJUST_PRICE ''See homes in range'')
                           \<lparr>s_newPrice := Some (js_round (affordableWithSavings / 5000) * 5000),
                            s_monthlyPayment :=
                              Some (js_round
                                      (estimateMonthlyPayment affordableWithSavings 0.035))\<rparr>]
                   else []);
                monthsToSave = js_ceil (shortfall / 500);
                saveMore =
                  [(solution SAVE_MORE ''Create savings plan'')
                     \<lparr>s_timeline := Some (MonthsText monthsToSave)\<rparr>];
                assistance =
                  (if dpa_firstHome dpaEligibility
                   then [solution DPA_PROGRAMS ''Learn about FirstHome'']
                   else if dpa_homeAgain dpaEligibility
                   then [solution DPA_PROGRAMS ''Learn about HomeAgain'']
                   else if dpa_fha dpaEligibility \<and> \<not> dpa_firstHome dpaEligibility \<and>
                           \<not> dpa_homeAgain dpaEligibility
                   then [solution DPA_PROGRAMS ''Explore FHA options'']
                   else [])
            in Some \<lparr>pb_type = DOWN_PAYMENT,
                     pb_severity = (if shortfall > 20000 then Significant else Minor),
                     pb_solutions = lowerPrice @ saveMore @ assistance\<rparr>)
         else if downPaymentPoints \<le> 7 \<and> \<not> veteranEligible then
           (let downPaymentPercent = (saved / targetPrice) * 100;
                comfortablePrice = saved / 0.05;
                lowerPrice =
                  (if comfortablePrice \<ge> 200000 \<and> comfortablePrice < targetPrice * 0.9
                   then [(solution ADJUST_PRICE ''See homes in range'')
                           \<lparr>s_newPrice := Some (js_round (comfortablePrice / 5000) * 5000),
                            s_monthlyPayment :=
                              Some (js_round (estimateMonthlyPayment comfortablePrice 0.035))\<rparr>]
                   else []);
                targetSaved = targetPrice * 0.05;
                additionalNeeded = targetSaved - saved;
                saveMore =
                  (if additionalNeeded > 0
                   then [(solution SAVE_MORE ''Create savings plan'')
                           \<lparr>s_timeline :=
                              Some (MonthsAt500Text (js_ceil (additionalNeeded / 500)))\<rparr>]
                   else []);
                assistance =
                  (if dpa_firstHome dpaEligibility
                   then [solution DPA_PROGRAMS ''Learn about FirstHome'']
                   else if dpa_homeAgain dpaEligibility
                   then [solution DPA_PROGRAMS ''Learn about HomeAgain'']
                   else let reasons =
                              (if annualIncome > homeAgain_incomeLimit
                               then [''income under $141k''] else []) @
                              (if truthy creditScore \<and> toNumber creditScore < 660
                               then [''660+ credit''] else [])
                        in if length reasons > 0
                           then [solution DPA_PROGRAMS ''See your options'']
                           else [])
            in Some \<lparr>pb_type = DOWN_PAYMENT,
                     pb_severity = (if downPaymentPoints \<le> 3 then Significant else Minor),
                     pb_solutions = lowerPrice @ saveMore @ assistance\<rparr>)
         else if creditScore \<noteq> Null \<and> toNumber creditScore < 620 then
           (let fhaToday =
                  (if dpa_fha dpaEligibility \<and> toNumber creditScore \<ge> 580
                   then [solution DPA_PROGRAMS ''Explore FHA options'']
                   else []);
                improve =
                  [(solution IMPROVE_CREDIT ''See credit tips'')
                     \<lparr>s_timeline := Some (FixedText ''3-6 months with focused effort'')\<rparr>]
            in Some \<lparr>pb_type = CREDIT,
                     pb_severity = (if toNumber creditScore < 580 then Critical
                                    else Significant),
                     pb_solutions = fhaToday @ improve\<rparr>)
         else if creditScore \<noteq> Null \<and> toNumber creditScore \<ge> 620 \<and>
                 toNumber creditScore < 660 then
           (let conventional = [solution DPA_PROGRAMS ''See your options''];
                improve =
                  (if annualIncome \<le> homeAgain_incomeLimit
                   then [(solution IMPROVE_CREDIT ''Quick credit wins'')
                           \<lparr>s_timeline := Some (FixedText ''2-4 months'')\<rparr>]
                   else [(solution IMPROVE_CREDIT ''Quick credit wins'')
                           \<lparr>s_timeline := Some (FixedText ''2-4 months'')\<rparr>])
            in Some \<lparr>pb_type = CREDIT, pb_severity = Minor,
                     pb_solutions = conventional @ improve\<rparr>)
         else None))"

section \<open>Internal score, sweet spot and path to goal\<close>

record ScoreSummary =
  i_total :: int
  i_status :: ScoreStatus
  i_timeline :: string

definition calculateScoreInternal :: "ScoreInput \<Rightarrow> ScoreSummary" where
  "calculateScoreInternal input =
     (let creditScore = getCreditScore (in_creditScoreRange input);
          income = toNumber (getIncomeAmount (in_annualIncome input));
          targetPrice = toNumber (getPriceAmount (in_priceRange input));
          saved = toNumber (getDownPaymentAmount (in_downPayment input));
          monthlyDebts = toNumber (getMonthlyDebtAmount (in_monthlyDebts input));
          monthlyIncome = income / 12;
          creditPoints = calculateCreditPoints creditScore;
          dtiPoints = calculateDtiPoints monthlyIncome targetPrice monthlyDebts;
          downPaymentPoints =
            calculateDownPaymentPoints saved targetPrice (in_veteranStatus input);
          employmentPoints = calculateEmploymentPoints;
          reservesPoints = calculateReservesPoints saved targetPrice;
          bonusPoints = calculateBonusPoints (in_firstTimeBuyer input) (in_veteranStatus input);
          total =
            max 0 (min 100 (creditPoints + dtiPoints + downPaymentPoints + employmentPoints +
                            reservesPoints + bonusPoints))
      in \<lparr>i_total = total, i_status = getStatus total, i_timeline = getTimeline total\<rparr>)"

record Comparison =
  c_priceDifference :: jsnum
  c_scoreDifference :: int
  c_paymentDifference :: jsnum

record SweetSpot =
  ss_recommendedPrice :: jsnum
  ss_scoreAtPrice :: int
  ss_statusAtPrice :: ScoreStatus
  ss_timelineAtPrice :: string
  ss_monthlyPayment :: jsnum
  ss_downPaymentNeeded :: jsnum
  ss_dtiAtPrice :: jsnum
  ss_whyThisWorks :: string
  ss_comparedToTarget :: Comparison

definition calculateSweetSpot ::
  "jsnum \<Rightarrow> jsnum \<Rightarrow> jsnum \<Rightarrow> jsnum \<Rightarrow> ScoreInput \<Rightarrow> SweetSpot" where
  "calculateSweetSpot monthlyIncome monthlyDebts saved targetPrice input =
     (let comfortablePrice = calculateMaxPriceForDti monthlyIncome monthlyDebts 36 0.035;
          stretchPrice = calculateMaxPriceForDti monthlyIncome monthlyDebts 43 0.035;
          recommendedPrice =
            (if targetPrice \<le> comfortablePrice then targetPrice
             else if targetPrice \<le> stretchPrice then comfortablePrice
             else stretchPrice);
          whyThisWorks =
            (if targetPrice \<le> comfortablePrice
             then ''Your target price fits comfortably within your budget with room to spare.''
             else if targetPrice \<le> stretchPrice
             then ''This price gives you financial breathing room while still getting a great home.''
             else ''This is the maximum lenders will typically approve. It keeps you within guidelines.'');
          recommendedPrice = js_round (recommendedPrice / 5000) * 5000;
          priceRange = getPriceRangeFromAmount recommendedPrice;
          scoreAtRecommended = calculateScoreInternal (input\<lparr>in_priceRange := Some priceRange\<rparr>);
          payment = estimateMonthlyPayment recommendedPrice 0.035;
          dtiAtPrice = calculateCurrentDti monthlyIncome monthlyDebts payment;
          targetPayment = estimateMonthlyPayment targetPrice 0.035;
          targetScore = calculateScoreInternal input
      in \<lparr>ss_recommendedPrice = recommendedPrice,
          ss_scoreAtPrice = i_total scoreAtRecommended,
          ss_statusAtPrice = i_status scoreAtRecommended,
          ss_timelineAtPrice = i_timeline scoreAtRecommended,
          ss_monthlyPayment = js_round payment,
          ss_downPaymentNeeded = js_round (recommendedPrice * 0.035),
          ss_dtiAtPrice = dtiAtPrice,
          ss_whyThisWorks = whyThisWorks,
          ss_comparedToTarget =
            \<lparr>c_priceDifference = targetPrice - recommendedPrice,
             c_scoreDifference = i_total scoreAtRecommended - i_total targetScore,
             c_paymentDifference = js_round (targetPayment - payment)\<rparr>\<rparr>)"

datatype ChangeType = debt_reduction | income_increase | savings_increase | credit_improvement

record RequiredChange =
  rc_type :: ChangeType
  rc_amount :: jsnum

record PathToGoal =
  pg_targetPrice :: jsnum
  pg_currentScore :: int
  pg_requiredChanges :: "RequiredChange list"
  pg_estimatedTimeline :: string

definition requiredChangesAt :: "jsnum \<Rightarrow> jsnum \<Rightarrow> jsnum \<Rightarrow> jsnum \<Rightarrow> RequiredChange list" where
  \<comment> \<open>The statements of \<^verbatim>\<open>calculatePathToGoal\<close> that fill \<^verbatim>\<open>requiredChanges\<close>.\<close>
  "requiredChangesAt monthlyIncome monthlyDebts saved targetPrice =
     (let housingPayment = estimateMonthlyPayment targetPrice 0.035;
          currentDti = calculateCurrentDti monthlyIncome monthlyDebts housingPayment;
          dtiChanges =
            (if currentDti > 43 then
               (let debtReduction =
                      calculateDebtReductionForDti monthlyIncome monthlyDebts housingPayment 43;
                    optionA =
                      (if debtReduction > 0 \<and> debtReduction \<le> monthlyDebts
                       then [\<lparr>rc_type = debt_reduction, rc_amount = debtReduction\<rparr>]
                       else []);
                    incomeIncrease =
                      calculateIncomeForDti monthlyIncome monthlyDebts housingPayment 43;
                    optionB =
                      (if incomeIncrease > 0
                       then [\<lparr>rc_type = income_increase, rc_amount = incomeIncrease\<rparr>]
                       else [])
                in optionA @ optionB)
             else []);
          downPaymentNeeded = targetPrice * 0.035;
          savings =
            (if saved < downPaymentNeeded
             then [\<lparr>rc_type = savings_increase, rc_amount = downPaymentNeeded - saved\<rparr>]
             else [])
      in dtiChanges @ savings)"

definition estimateMonths :: "RequiredChange \<Rightarrow> jsnum \<Rightarrow> jsnum" where
  \<comment> \<open>The body of the \<^verbatim>\<open>forEach\<close> over the required changes.\<close>
  "estimateMonths change estimatedMonths =
     (if rc_type change = debt_reduction
      then js_max estimatedMonths (js_ceil (rc_amount change * 12 / 1000))
      else if rc_type change = savings_increase
      then js_max estimatedMonths (js_ceil (rc_amount change / 500))
      else if rc_type change = income_increase
      then js_max estimatedMonths 6
      else estimatedMonths)"

definition calculatePathToGoal ::
  "jsnum \<Rightarrow> jsnum \<Rightarrow> jsnum \<Rightarrow> jsnum \<Rightarrow> SweetSpot \<Rightarrow> int \<Rightarrow> PathToGoal option" where
  \<comment> \<open>\<open>None\<close> is \<^verbatim>\<open>null\<close>.\<close>
  "calculatePathToGoal monthlyIncome monthlyDebts saved targetPrice sweetSpot currentScore =
     (if \<bar>targetPrice - ss_recommendedPrice sweetSpot\<bar> < 10000 then None
      else if targetPrice < ss_recommendedPrice sweetSpot then None
      else let requiredChanges = requiredChangesAt monthlyIncome monthlyDebts saved targetPrice
           in if length requiredChanges = 0 then None
              else let estimatedMonths = fold estimateMonths requiredChanges 0;
                       estimatedTimeline =
                         (if estimatedMonths \<le> 3 then ''1-3 months''
                          else if estimatedMonths \<le> 6 then ''3-6 months''
                          else if estimatedMonths \<le> 12 then ''6-12 months''
                          else ''12+ months'')
                   in Some \<lparr>pg_targetPrice = targetPrice,
                            pg_currentScore = currentScore,
                            pg_requiredChanges = requiredChanges,
                            pg_estimatedTimeline = estimatedTimeline\<rparr>)"

section \<open>Main scoring function\<close>

record ScoreBreakdown =
  b_credit :: int
  b_dti :: int
  b_downPayment :: int
  b_employment :: int
  b_reserves :: int
  b_bonus :: int
  b_penalty :: int

text \<open>The parsed values are the resolved values themselves, before any conversion.\<close>

record ParsedValues =
  pv_creditScore :: jsvalue
  pv_monthlyIncome :: jsnum
  pv_annualIncome :: jsvalue
  pv_monthlyDebts :: jsvalue
  pv_targetPrice :: jsvalue
  pv_savedAmount :: jsvalue
  pv_currentDti :: jsnum

record ScoreResult =
  sr_total :: int
  sr_status :: ScoreStatus
  sr_timeline :: string
  sr_color :: string
  sr_breakdown :: ScoreBreakdown
  sr_programs :: "string list"
  sr_programDetails :: "ProgramDetail list"
  sr_gaps :: "Gap list"
  sr_recommendations :: "Recommendation list"
  sr_primaryBlocker :: "PrimaryBlocker option"
  sr_sweetSpot :: SweetSpot
  sr_pathToGoal :: "PathToGoal option"
  sr_parsedValues :: ParsedValues

definition calculateScore :: "ScoreInput \<Rightarrow> ScoreResult" where
  "calculateScore input =
     (let creditScore = getCreditScore (in_creditScoreRange input);
          income = getIncomeAmount (in_annualIncome input);
          targetPrice = getPriceAmount (in_priceRange input);
          saved = getDownPaymentAmount (in_downPayment input);
          monthlyDebts = getMonthlyDebtAmount (in_monthlyDebts input);
          monthlyIncome = toNumber income / 12;
          creditPoints = calculateCreditPoints creditScore;
          dtiPoints =
            calculateDtiPoints monthlyIncome (toNumber targetPrice) (toNumber monthlyDebts);
          downPaymentPoints =
            calculateDownPaymentPoints (toNumber saved) (toNumber targetPrice)
              (in_veteranStatus input);
          employmentPoints = calculateEmploymentPoints;
          reservesPoints = calculateReservesPoints (toNumber saved) (toNumber targetPrice);
          bonusPoints = calculateBonusPoints (in_firstTimeBuyer input) (in_veteranStatus input);
          penaltyPoints = 0;
          baseScore =
            creditPoints + dtiPoints + downPaymentPoints + employmentPoints + reservesPoints;
          total = max 0 (min 100 (baseScore + bonusPoints - penaltyPoints));
          status = getStatus total;
          timeline = getTimeline total;
          color = getColor status;
          programDetails =
            matchPrograms creditScore (in_firstTimeBuyer input) (in_veteranStatus input)
              (toNumber income);
          programs = map p_name (filter p_eligible programDetails);
          gaps =
            identifyGaps creditScore creditPoints downPaymentPoints dtiPoints (toNumber saved)
              (toNumber targetPrice);
          recommendations = generateRecommendations gaps;
          housingPayment = estimateMonthlyPayment (toNumber targetPrice) 0.035;
          currentDti = calculateCurrentDti monthlyIncome (toNumber monthlyDebts) housingPayment;
          primaryBlocker =
            detectPrimaryBlocker creditScore creditPoints dtiPoints downPaymentPoints
              monthlyIncome (toNumber monthlyDebts) (toNumber targetPrice) (toNumber saved)
              (in_veteranStatus input) (toNumber income) (in_firstTimeBuyer input);
          sweetSpot =
            calculateSweetSpot monthlyIncome (toNumber monthlyDebts) (toNumber saved)
              (toNumber targetPrice) input;
          pathToGoal =
            calculatePathToGoal monthlyIncome (toNumber monthlyDebts) (toNumber saved)
              (toNumber targetPrice) sweetSpot total
      in \<lparr>sr_total = total,
          sr_status = status,
          sr_timeline = timeline,
          sr_color = color,
          sr_breakdown =
            \<lparr>b_credit = creditPoints, b_dti = dtiPoints, b_downPayment = downPaymentPoints,
             b_employment = employmentPoints, b_reserves = reservesPoints,
             b_bonus = bonusPoints, b_penalty = penaltyPoints\<rparr>,
          sr_programs = programs,
          sr_programDetails = programDetails,
          sr_gaps = gaps,
          sr_recommendations = recommendations,
          sr_primaryBlocker = primaryBlocker,
          sr_sweetSpot = sweetSpot,
          sr_pathToGoal = pathToGoal,
          sr_parsedValues =
            \<lparr>pv_creditScore = creditScore, pv_monthlyIncome = monthlyIncome,
             pv_annualIncome = income, pv_monthlyDebts = monthlyDebts,
             pv_targetPrice = targetPrice, pv_savedAmount = saved,
             pv_currentDti = currentDti\<rparr>\<rparr>)"

definition calculateScoreAtPrice :: "ScoreInput \<Rightarrow> jsnum \<Rightarrow> ScoreResult" where
  "calculateScoreAtPrice input overridePrice =
     (let priceRange = getPriceRangeFromAmount overridePrice
      in calculateScore (input\<lparr>in_priceRange := Some priceRange\<rparr>))"

section \<open>Auxiliary quantities\<close>

text \<open>
  The growth factor \<open>(1 + r)\<^sup>n\<close> of the amortization formula, the monthly mortgage payment
  per unit of loan, and the monthly payment per unit of price at the default 3.5% down
  payment, without the flat insurance.
\<close>

definition growth :: real where
  "growth = (1 + 0.06 / 12) ^ 360"

definition amort :: real where
  "amort = (0.06 / 12 * growth) / (growth - 1)"

definition payRate :: real where
  "payRate = (1 - 0.035) * (amort + 0.008 / 12) + 0.012 / 12"

definition inheritedToken :: "string option \<Rightarrow> bool" where
  \<comment> \<open>The token names a member of \<^verbatim>\<open>Object.prototype\<close>.\<close>
  "inheritedToken t = (case t of None \<Rightarrow> False | Some r \<Rightarrow> r \<in> set objectPrototypeKeys)"

text \<open>
  The round trip of a range token: the forward resolver, then the reverse mapping of the
  same dimension.
\<close>

definition creditRoundTrip :: "string \<Rightarrow> string option" where
  "creditRoundTrip t = getCreditScoreRange (getCreditScore (Some t))"

definition incomeRoundTrip :: "string \<Rightarrow> string" where
  "incomeRoundTrip t = getIncomeRange (toNumber (getIncomeAmount (Some t)))"

definition priceRoundTrip :: "string \<Rightarrow> string" where
  "priceRoundTrip t = getPriceRange (toNumber (getPriceAmount (Some t)))"

definition downPaymentRoundTrip :: "string \<Rightarrow> string" where
  "downPaymentRoundTrip t = getDownPaymentRange (toNumber (getDownPaymentAmount (Some t)))"

definition monthlyDebtRoundTrip :: "string \<Rightarrow> string" where
  "monthlyDebtRoundTrip t = getMonthlyDebtRange (toNumber (getMonthlyDebtAmount (Some t)))"

text \<open>The five catalog programs, in the order in which \<^verbatim>\<open>matchPrograms\<close> visits them.\<close>

definition programCatalog :: "string list" where
  "programCatalog =
     [''VA Loan'', ''FHA Loan'', ''Conventional Loan'', ''Utah FirstHome'', ''Utah HomeAgain'']"

text \<open>Inputs at which the functions are evaluated below.\<close>

definition exampleInput :: ScoreInput where
  "exampleInput =
     \<lparr>in_creditScoreRange = None, in_annualIncome = Some ''100k-150k'',
      in_downPayment = Some ''50k-75k'', in_priceRange = Some ''500k-600k'',
      in_monthlyDebts = Some ''500-1000'', in_firstTimeBuyer = Some False,
      in_veteranStatus = None\<rparr>"

definition comfortableInput :: ScoreInput where
  "comfortableInput =
     \<lparr>in_creditScoreRange = Some ''740-plus'', in_annualIncome = Some ''220k-plus'',
      in_downPayment = None, in_priceRange = Some ''under-400k'',
      in_monthlyDebts = Some ''none'', in_firstTimeBuyer = Some False,
      in_veteranStatus = None\<rparr>"

definition firstTimeInput :: ScoreInput where
  "firstTimeInput =
     \<lparr>in_creditScoreRange = Some ''660-699'', in_annualIncome = Some ''100k-150k'',
      in_downPayment = None, in_priceRange = None, in_monthlyDebts = None,
      in_firstTimeBuyer = Some True, in_veteranStatus = None\<rparr>"

definition emptyInput :: ScoreInput where
  \<comment> \<open>Every field \<^verbatim>\<open>null\<close>.\<close>
  "emptyInput =
     \<lparr>in_creditScoreRange = None, in_annualIncome = None, in_downPayment = None,
      in_priceRange = None, in_monthlyDebts = None, in_firstTimeBuyer = None,
      in_veteranStatus = None\<rparr>"

definition inheritedIncomeInput :: ScoreInput where
  "inheritedIncomeInput = emptyInput\<lparr>in_annualIncome := Some ''toString''\<rparr>"

definition inheritedDebtsInput :: ScoreInput where
  "inheritedDebtsInput = emptyInput\<lparr>in_monthlyDebts := Some ''toString''\<rparr>"

definition inheritedPriceInput :: ScoreInput where
  "inheritedPriceInput = emptyInput\<lparr>in_priceRange := Some ''valueOf''\<rparr>"

section \<open>Arithmetic on numbers\<close>

text \<open>The operators on finite values, and on NaN.\<close>

lemmas num_ops = zero_jsnum_def one_jsnum_def plus_jsnum_def uminus_jsnum_def minus_jsnum_def
  times_jsnum_def divide_jsnum_def abs_jsnum_def less_jsnum_def less_eq_jsnum_def

lemma numeral_jsnum [simp]: "(numeral k :: jsnum) = Fin (numeral k)"
proof (induction k)
  case One
  show ?case by (simp add: one_jsnum_def)
next
  case (Bit0 k)
  have "(numeral (Num.Bit0 k) :: jsnum) = numeral k + numeral k" by (rule numeral_Bit0)
  also have "\<dots> = Fin (numeral k + numeral k)"
    unfolding Bit0.IH by (simp add: plus_jsnum_def)
  also have "numeral k + numeral k = (numeral (Num.Bit0 k) :: real)"
    by (rule numeral_Bit0 [symmetric])
  finally show ?case .
next
  case (Bit1 k)
  have "(numeral (Num.Bit1 k) :: jsnum) = numeral k + numeral k + 1" by (rule numeral_Bit1)
  also have "\<dots> = Fin (numeral k + numeral k + 1)"
    unfolding Bit1.IH by (simp add: plus_jsnum_def one_jsnum_def)
  also have "numeral k + numeral k + 1 = (numeral (Num.Bit1 k) :: real)"
    by (rule numeral_Bit1 [symmetric])
  finally show ?case .
qed

lemma fin_zero [simp]: "(0::jsnum) = Fin 0"
  by (simp add: num_ops)

lemma fin_one [simp]: "(1::jsnum) = Fin 1"
  by (simp add: num_ops)

lemma fin_add [simp]: "Fin a + Fin b = Fin (a + b)"
  by (simp add: num_ops)

lemma fin_sub [simp]: "Fin a - Fin b = Fin (a - b)"
  by (simp add: num_ops)

lemma fin_mul [simp]: "Fin a * Fin b = Fin (a * b)"
  by (simp add: num_ops)

lemma fin_div [simp]: "b \<noteq> 0 \<Longrightarrow> Fin a / Fin b = Fin (a / b)"
  by (simp add: num_ops)

lemma fin_neg [simp]: "- Fin a = Fin (- a)"
  by (simp add: num_ops)

lemma fin_abs [simp]: "\<bar>Fin a\<bar> = Fin \<bar>a\<bar>"
  by (simp add: num_ops)

lemma fin_less [simp]: "Fin a < Fin b \<longleftrightarrow> a < b"
  by (simp add: num_ops)

lemma fin_le [simp]: "Fin a \<le> Fin b \<longleftrightarrow> a \<le> b"
  by (simp add: num_ops)

lemma fin_power [simp]: "Fin a ^ n = Fin (a ^ n)"
  by (induction n) simp_all

lemma fin_max [simp]: "js_max (Fin a) (Fin b) = Fin (max a b)"
  by (simp add: max_def)

lemma fin_min [simp]: "js_min (Fin a) (Fin b) = Fin (min a b)"
  by (simp add: min_def)

lemma nan_add [simp]: "NaN + x = NaN" "x + NaN = NaN"
  by (cases x; simp add: num_ops)+

lemma nan_sub [simp]: "NaN - x = NaN" "x - NaN = NaN"
  by (cases x; simp add: num_ops)+

lemma nan_mul [simp]: "NaN * x = NaN" "x * NaN = NaN"
  by (cases x; simp add: num_ops)+

lemma nan_div [simp]: "NaN / x = NaN" "x / NaN = NaN"
  by (cases x; simp add: num_ops)+

lemma nan_less [simp]: "\<not> NaN < x" "\<not> x < NaN"
  by (cases x; simp add: num_ops)+

lemma nan_le [simp]: "\<not> NaN \<le> x" "\<not> x \<le> NaN"
  by (cases x; simp add: num_ops)+

lemma nan_abs [simp]: "\<bar>NaN\<bar> = NaN"
  by (simp add: num_ops)

lemma nan_max [simp]: "js_max NaN x = NaN" "js_max x NaN = NaN"
  by (cases x; simp)+

lemma nan_min [simp]: "js_min NaN x = NaN" "js_min x NaN = NaN"
  by (cases x; simp)+

lemma inf_less [simp]:
  "Fin a < PosInf" "NegInf < Fin a" "NegInf < PosInf" "\<not> PosInf < x" "\<not> x < NegInf"
  by (cases x; simp add: num_ops)+

lemma inf_le [simp]:
  "x \<le> PosInf \<longleftrightarrow> x \<noteq> NaN" "NegInf \<le> x \<longleftrightarrow> x \<noteq> NaN"
  "\<not> PosInf \<le> Fin a" "\<not> Fin a \<le> NegInf" "\<not> PosInf \<le> NegInf"
  by (cases x; simp add: num_ops)+

lemma le_not_less: "(a::jsnum) \<le> b \<Longrightarrow> \<not> b < a"
  by (cases a; cases b; simp)

lemma fl_nan [simp]: "fl NaN = NaN"
  by (simp add: fl_def)

lemma fl_pos:
  assumes "0 < x" "binade x = e" "- 1022 \<le> e" "roundHalfEven (x / pow2 (e - 52)) = m"
    and "pow2 (e - 52) * of_int m < pow2 1024"
  shows "fl (Fin x) = Fin (pow2 (e - 52) * of_int m)"
proof -
  have e: "max e (- 1022) = e" using assms(3) by simp
  have "\<not> pow2 1024 \<le> pow2 (e - 52) * of_int m" using assms(5) by simp
  then show ?thesis using assms(1,2,4) by (simp add: fl_def Let_def e)
qed

section \<open>The payment model in closed form\<close>

text \<open>
  The growth factor lies between 6.02257519 and 6.02257525, which bounds the payment per
  unit of price; at 3.5% down the payment for a finite price is \<open>price * payRate + 100\<close>.
\<close>

lemma growth_lower: "6.02257519 \<le> growth"
proof -
  have a: "(1.0252512531::real) \<le> (201/200) ^ 5" by (simp add: power_divide)
  have "(1.2207942362::real) \<le> 1.0252512531 ^ 8" by (simp add: power_divide)
  also have "\<dots> \<le> ((201/200) ^ 5) ^ 8" by (rule power_mono [OF a]) simp
  finally have b: "(1.2207942362::real) \<le> (201/200) ^ 40" by (simp add: power_mult [symmetric])
  have "(6.02257519::real) \<le> 1.2207942362 ^ 9" by (simp add: power_divide)
  also have "\<dots> \<le> ((201/200) ^ 40) ^ 9" by (rule power_mono [OF b]) simp
  finally have "(6.02257519::real) \<le> (201/200) ^ 360" by (simp add: power_mult [symmetric])
  then show ?thesis by (simp add: growth_def)
qed

lemma growth_upper: "growth \<le> 6.02257525"
proof -
  have a: "(201/200) ^ 5 \<le> (1.0252512532::real)" by (simp add: power_divide)
  have "((201/200) ^ 5) ^ 8 \<le> (1.0252512532::real) ^ 8" by (rule power_mono [OF a]) simp
  also have "\<dots> \<le> 1.2207942372" by (simp add: power_divide)
  finally have b: "(201/200) ^ 40 \<le> (1.2207942372::real)" by (simp add: power_mult [symmetric])
  have "((201/200) ^ 40) ^ 9 \<le> (1.2207942372::real) ^ 9" by (rule power_mono [OF b]) simp
  also have "\<dots> \<le> 6.02257525" by (simp add: power_divide)
  finally have "(201/200) ^ 360 \<le> (6.02257525::real)" by (simp add: power_mult [symmetric])
  then show ?thesis by (simp add: growth_def)
qed

lemma amort_bounds: "0.005995505 \<le> amort" "amort \<le> 0.005995506"
proof -
  have g: "6.02257519 \<le> growth" "growth \<le> 6.02257525"
    by (rule growth_lower, rule growth_upper)
  then have pos: "0 < growth - 1" by simp
  have eq: "amort = 0.005 * growth / (growth - 1)"
    by (simp add: amort_def)
  show "0.005995505 \<le> amort"
    unfolding eq using g pos by (simp add: pos_le_divide_eq)
  show "amort \<le> 0.005995506"
    unfolding eq using g pos by (simp add: pos_divide_le_eq)
qed

lemma payRate_bounds: "0.007428995 \<le> payRate" "payRate \<le> 0.007428997"
  using amort_bounds by (simp_all add: payRate_def)

lemma payRate_pos: "0 < payRate"
  using payRate_bounds(1) by simp

lemma growth_jsnum: "(1 + CURRENT_RATE / 12) ^ 360 = Fin growth"
proof -
  have "(1 + CURRENT_RATE / 12 :: jsnum) = Fin (1 + 0.06 / 12)"
    by (simp add: CURRENT_RATE_def)
  then show ?thesis unfolding growth_def by (simp only: fin_power)
qed

lemma estimateMonthlyPayment_amort:
  "estimateMonthlyPayment (Fin price) (Fin dp) =
     Fin (price * (1 - dp) * (amort + 0.008 / 12) + price * 0.012 / 12 + 100)"
proof -
  have r: "CURRENT_RATE / 12 = Fin (0.06 / 12)" by (simp add: CURRENT_RATE_def)
  have g: "growth - 1 \<noteq> 0" using growth_lower by simp
  have "estimateMonthlyPayment (Fin price) (Fin dp) =
          Fin ((price - price * dp) * (0.06 / 12 * growth) / (growth - 1) +
               price * 0.012 / 12 + 100 + (price - price * dp) * 0.008 / 12)"
    unfolding estimateMonthlyPayment_def Let_def growth_jsnum unfolding r using g by simp
  also have "(price - price * dp) * (0.06 / 12 * growth) / (growth - 1) +
               price * 0.012 / 12 + 100 + (price - price * dp) * 0.008 / 12 =
             price * (1 - dp) * (amort + 0.008 / 12) + price * 0.012 / 12 + 100"
    by (simp add: amort_def algebra_simps add_divide_distrib diff_divide_distrib)
  finally show ?thesis .
qed

lemma estimateMonthlyPayment_default:
  "estimateMonthlyPayment (Fin price) 0.035 = Fin (price * payRate + 100)"
proof -
  have "(0.035 :: jsnum) = Fin 0.035" by simp
  then have "estimateMonthlyPayment (Fin price) 0.035 =
               Fin (price * (1 - 0.035) * (amort + 0.008 / 12) + price * 0.012 / 12 + 100)"
    by (simp only: estimateMonthlyPayment_amort)
  also have "price * (1 - 0.035) * (amort + 0.008 / 12) + price * 0.012 / 12 + 100 =
             price * payRate + 100"
    by (simp add: payRate_def algebra_simps)
  finally show ?thesis .
qed

lemma estimateMonthlyPayment_default':
  "estimateMonthlyPayment (Fin price) (Fin (7 / 200)) = Fin (price * payRate + 100)"
  using estimateMonthlyPayment_default [of price] by simp

lemmas pay35 = estimateMonthlyPayment_default estimateMonthlyPayment_default'

lemma estimateMonthlyPayment_nan [simp]: "estimateMonthlyPayment NaN dp = NaN"
  by (simp add: estimateMonthlyPayment_def Let_def)

section \<open>What the resolvers return\<close>

text \<open>
  Each resolver as a function of the token: the inherited member for an inherited name,
  the table value for a key, the default otherwise.
\<close>

lemmas resolver_defs =
  getCreditScore_def getIncomeAmount_def getPriceAmount_def getDownPaymentAmount_def
  getMonthlyDebtAmount_def creditMapping_def incomeMapping_def priceMapping_def
  downPaymentMapping_def monthlyDebtMapping_def getProperty_def nullish_def
  inheritedToken_def objectPrototypeKeys_def

lemma credit_resolved:
  "getCreditScore t =
     (if inheritedToken t then Inherited
      else if t = Some ''below-580'' then Number 550
      else if t = Some ''580-619'' then Number 600
      else if t = Some ''620-659'' then Number 640
      else if t = Some ''660-699'' then Number 680
      else if t = Some ''700-739'' then Number 720
      else if t = Some ''740-plus'' then Number 760
      else Null)"
  by (cases t) (simp_all add: resolver_defs)

lemma income_resolved:
  "getIncomeAmount t =
     (if inheritedToken t then Inherited
      else Number (
        if t = Some ''under-40k'' then 35000
        else if t = Some ''40k-60k'' then 50000
        else if t = Some ''60k-80k'' then 70000
        else if t = Some ''80k-100k'' then 90000
        else if t = Some ''100k-150k'' then 125000
        else if t = Some ''150k-180k'' then 165000
        else if t = Some ''180k-220k'' then 200000
        else if t = Some ''220k-plus'' then 250000
        else 60000))"
  by (cases t) (simp_all add: resolver_defs)

lemma price_resolved:
  "getPriceAmount t =
     (if inheritedToken t then Inherited
      else Number (
        if t = Some ''under-400k'' then 350000
        else if t = Some ''400k-500k'' then 450000
        else if t = Some ''500k-600k'' then 550000
        else if t = Some ''600k-700k'' then 650000
        else if t = Some ''700k-800k'' then 750000
        else if t = Some ''800k-900k'' then 850000
        else if t = Some ''900k-1m'' then 950000
        else if t = Some ''1m-plus'' then 1200000
        else 500000))"
  by (cases t) (simp_all add: resolver_defs)

lemma downPayment_resolved:
  "getDownPaymentAmount t =
     (if inheritedToken t then Inherited
      else Number (
        if t = Some ''under-10k'' then 5000
        else if t = Some ''10k-25k'' then 17500
        else if t = Some ''25k-50k'' then 37500
        else if t = Some ''50k-75k'' then 62500
        else if t = Some ''75k-100k'' then 87500
        else if t = Some ''100k-140k'' then 120000
        else if t = Some ''140k-180k'' then 160000
        else if t = Some ''180k-220k'' then 200000
        else if t = Some ''220k-260k'' then 240000
        else if t = Some ''260k-plus'' then 300000
        else 20000))"
  by (cases t) (simp_all add: resolver_defs)

lemma monthlyDebt_resolved:
  "getMonthlyDebtAmount t =
     (if inheritedToken t then Inherited
      else Number (
        if t = Some ''none'' then 0
        else if t = Some ''under-250'' then 125
        else if t = Some ''250-500'' then 375
        else if t = Some ''500-1000'' then 750
        else if t = Some ''1000-2000'' then 1500
        else if t = Some ''2000-2500'' then 2250
        else if t = Some ''2500-3000'' then 2750
        else if t = Some ''3000-plus'' then 3500
        else 0))"
  by (cases t) (simp_all add: resolver_defs)

text \<open>
  An absent or empty token, and a token that is neither a key of the table nor a name
  inherited from \<^verbatim>\<open>Object.prototype\<close>, resolve to the default.
\<close>

lemma absent_token_default:
  "t = None \<or> t = Some [] \<Longrightarrow>
     getCreditScore t = Null \<and> getIncomeAmount t = Number 60000 \<and>
     getPriceAmount t = Number 500000 \<and> getDownPaymentAmount t = Number 20000 \<and>
     getMonthlyDebtAmount t = Number 0"
  by (auto simp: getCreditScore_def getIncomeAmount_def getPriceAmount_def
        getDownPaymentAmount_def getMonthlyDebtAmount_def)

lemma unrecognized_token_default:
  assumes "\<not> inheritedToken (Some t)"
  shows "t \<notin> set (map fst creditMapping) \<Longrightarrow> getCreditScore (Some t) = Null"
    and "t \<notin> set (map fst incomeMapping) \<Longrightarrow> getIncomeAmount (Some t) = Number 60000"
    and "t \<notin> set (map fst priceMapping) \<Longrightarrow> getPriceAmount (Some t) = Number 500000"
    and "t \<notin> set (map fst downPaymentMapping) \<Longrightarrow>
           getDownPaymentAmount (Some t) = Number 20000"
    and "t \<notin> set (map fst monthlyDebtMapping) \<Longrightarrow> getMonthlyDebtAmount (Some t) = Number 0"
  using assms by (simp_all add: resolver_defs)

lemma toNumber_simps [simp]:
  "toNumber (Number x) = Fin x" "toNumber Null = Fin 0" "toNumber Inherited = NaN"
  by (simp_all add: toNumber_def)

lemma truthy_simps [simp]:
  "truthy (Number x) \<longleftrightarrow> x \<noteq> 0" "\<not> truthy Null" "truthy Inherited"
  by (simp_all add: truthy_def)

section \<open>The fields of the result\<close>

text \<open>Each field of the result of \<^verbatim>\<open>calculateScore\<close> in terms of the resolved values.\<close>

lemma calculateScore_breakdown:
  "sr_breakdown (calculateScore input) =
     \<lparr>b_credit = calculateCreditPoints (getCreditScore (in_creditScoreRange input)),
      b_dti = calculateDtiPoints (toNumber (getIncomeAmount (in_annualIncome input)) / 12)
                (toNumber (getPriceAmount (in_priceRange input)))
                (toNumber (getMonthlyDebtAmount (in_monthlyDebts input))),
      b_downPayment = calculateDownPaymentPoints
                (toNumber (getDownPaymentAmount (in_downPayment input)))
                (toNumber (getPriceAmount (in_priceRange input))) (in_veteranStatus input),
      b_employment = calculateEmploymentPoints,
      b_reserves = calculateReservesPoints
                (toNumber (getDownPaymentAmount (in_downPayment input)))
                (toNumber (getPriceAmount (in_priceRange input))),
      b_bonus = calculateBonusPoints (in_firstTimeBuyer input) (in_veteranStatus input),
      b_penalty = 0\<rparr>"
  by (simp add: calculateScore_def Let_def)

lemma calculateScore_total:
  "sr_total (calculateScore input) =
     max 0 (min 100 (b_credit (sr_breakdown (calculateScore input)) +
                     b_dti (sr_breakdown (calculateScore input)) +
                     b_downPayment (sr_breakdown (calculateScore input)) +
                     b_employment (sr_breakdown (calculateScore input)) +
                     b_reserves (sr_breakdown (calculateScore input)) +
                     b_bonus (sr_breakdown (calculateScore input)) -
                     b_penalty (sr_breakdown (calculateScore input))))"
  by (simp add: calculateScore_def Let_def)

lemma calculateScore_status:
  "sr_status (calculateScore input) = getStatus (sr_total (calculateScore input))"
  "sr_timeline (calculateScore input) = getTimeline (sr_total (calculateScore input))"
  "sr_color (calculateScore input) = getColor (sr_status (calculateScore input))"
  by (simp_all add: calculateScore_def Let_def)

lemma calculateScore_parsedValues:
  "sr_parsedValues (calculateScore input) =
     \<lparr>pv_creditScore = getCreditScore (in_creditScoreRange input),
      pv_monthlyIncome = toNumber (getIncomeAmount (in_annualIncome input)) / 12,
      pv_annualIncome = getIncomeAmount (in_annualIncome input),
      pv_monthlyDebts = getMonthlyDebtAmount (in_monthlyDebts input),
      pv_targetPrice = getPriceAmount (in_priceRange input),
      pv_savedAmount = getDownPaymentAmount (in_downPayment input),
      pv_currentDti =
        calculateCurrentDti (toNumber (getIncomeAmount (in_annualIncome input)) / 12)
          (toNumber (getMonthlyDebtAmount (in_monthlyDebts input)))
          (estimateMonthlyPayment (toNumber (getPriceAmount (in_priceRange input))) 0.035)\<rparr>"
  by (simp add: calculateScore_def Let_def)

lemma calculateScore_programs:
  "sr_programDetails (calculateScore input) =
     matchPrograms (getCreditScore (in_creditScoreRange input)) (in_firstTimeBuyer input)
       (in_veteranStatus input) (toNumber (getIncomeAmount (in_annualIncome input)))"
  "sr_programs (calculateScore input) =
     map p_name (filter p_eligible (sr_programDetails (calculateScore input)))"
  by (simp_all add: calculateScore_def Let_def)

lemma calculateScore_primaryBlocker:
  "sr_primaryBlocker (calculateScore input) =
     detectPrimaryBlocker (getCreditScore (in_creditScoreRange input))
       (b_credit (sr_breakdown (calculateScore input)))
       (b_dti (sr_breakdown (calculateScore input)))
       (b_downPayment (sr_breakdown (calculateScore input)))
       (toNumber (getIncomeAmount (in_annualIncome input)) / 12)
       (toNumber (getMonthlyDebtAmount (in_monthlyDebts input)))
       (toNumber (getPriceAmount (in_priceRange input)))
       (toNumber (getDownPaymentAmount (in_downPayment input)))
       (in_veteranStatus input)
       (toNumber (getIncomeAmount (in_annualIncome input)))
       (in_firstTimeBuyer input)"
  by (simp add: calculateScore_def Let_def)

lemma calculateScore_sweetSpot:
  "sr_sweetSpot (calculateScore input) =
     calculateSweetSpot (toNumber (getIncomeAmount (in_annualIncome input)) / 12)
       (toNumber (getMonthlyDebtAmount (in_monthlyDebts input)))
       (toNumber (getDownPaymentAmount (in_downPayment input)))
       (toNumber (getPriceAmount (in_priceRange input))) input"
  by (simp add: calculateScore_def Let_def)

lemma calculateScore_pathToGoal:
  "sr_pathToGoal (calculateScore input) =
     calculatePathToGoal (toNumber (getIncomeAmount (in_annualIncome input)) / 12)
       (toNumber (getMonthlyDebtAmount (in_monthlyDebts input)))
       (toNumber (getDownPaymentAmount (in_downPayment input)))
       (toNumber (getPriceAmount (in_priceRange input)))
       (sr_sweetSpot (calculateScore input)) (sr_total (calculateScore input))"
  by (simp add: calculateScore_def Let_def)

section \<open>The worked example\<close>

lemma example_resolved:
  "getCreditScore (in_creditScoreRange exampleInput) = Null"
  "getIncomeAmount (in_annualIncome exampleInput) = Number 125000"
  "getPriceAmount (in_priceRange exampleInput) = Number 550000"
  "getDownPaymentAmount (in_downPayment exampleInput) = Number 62500"
  "getMonthlyDebtAmount (in_monthlyDebts exampleInput) = Number 750"
  "in_firstTimeBuyer exampleInput = Some False"
  "in_veteranStatus exampleInput = None"
  by (simp_all add: exampleInput_def credit_resolved income_resolved price_resolved
        downPayment_resolved monthlyDebt_resolved inheritedToken_def objectPrototypeKeys_def)

lemma example_payment:
  "estimateMonthlyPayment (Fin 550000) 0.035 = Fin (550000 * payRate + 100)"
  "4185.94 \<le> 550000 * payRate + 100" "550000 * payRate + 100 \<le> 4185.95"
  using payRate_bounds by (simp_all add: pay35)

lemma example_dtiPoints:
  "calculateDtiPoints (Fin 125000 / 12) (Fin 550000) (Fin 750) = 10"
  unfolding calculateDtiPoints_def Let_def example_payment(1)
  using example_payment(2,3) by simp

lemma example_downPaymentPoints:
  "calculateDownPaymentPoints (Fin 62500) (Fin 550000) None = 14"
  by (simp add: calculateDownPaymentPoints_def isVeteranEligible_def Let_def)

lemma example_reservesPoints: "calculateReservesPoints (Fin 62500) (Fin 550000) = 10"
proof -
  have "550000 * payRate + 100 \<noteq> 0" using example_payment(2) by simp
  then show ?thesis
    unfolding calculateReservesPoints_def Let_def example_payment(1)
    using example_payment(2,3) by (simp add: pos_le_divide_eq)
qed

lemma example_breakdown:
  "sr_breakdown (calculateScore exampleInput) =
     \<lparr>b_credit = 15, b_dti = 10, b_downPayment = 14, b_employment = 12,
      b_reserves = 10, b_bonus = 0, b_penalty = 0\<rparr>"
proof -
  have c: "calculateCreditPoints Null = 15" "calculateEmploymentPoints = 12"
    "calculateBonusPoints (Some False) None = 0"
    by (simp_all add: calculateCreditPoints_def calculateEmploymentPoints_def
          calculateBonusPoints_def isVeteranEligible_def)
  show ?thesis
    unfolding calculateScore_breakdown example_resolved toNumber_simps c
      example_dtiPoints example_downPaymentPoints example_reservesPoints ..
qed

lemma example_total: "sr_total (calculateScore exampleInput) = 61"
  unfolding calculateScore_total example_breakdown by simp

text \<open>
  Claim C1, as amended. For the example input (income \<^verbatim>\<open>"100k-150k"\<close>, price
  \<^verbatim>\<open>"500k-600k"\<close>, down payment \<^verbatim>\<open>"50k-75k"\<close>, debts \<^verbatim>\<open>"500-1000"\<close>, not a
  first-time buyer, no veteran status, no credit range) \<^verbatim>\<open>calculateScore\<close> returns the
  breakdown credit 15, dti 10, down payment 14, employment 12, reserves 10, bonus 0, the
  total 61, the status \<^verbatim>\<open>GETTING_CLOSE\<close> and the timeline \<^verbatim>\<open>"3-6 months"\<close>.
\<close>

theorem calculateScore_example:
  "sr_breakdown (calculateScore exampleInput) =
     \<lparr>b_credit = 15, b_dti = 10, b_downPayment = 14, b_employment = 12,
      b_reserves = 10, b_bonus = 0, b_penalty = 0\<rparr> \<and>
   sr_total (calculateScore exampleInput) = 61 \<and>
   sr_status (calculateScore exampleInput) = GETTING_CLOSE \<and>
   sr_timeline (calculateScore exampleInput) = ''3-6 months''"
  unfolding calculateScore_status example_total example_breakdown
  by (simp add: getStatus_def getTimeline_def)

theorem calculateScore_example_counterexample:
  "b_dti (sr_breakdown (calculateScore exampleInput)) = 10 \<and>
   b_dti (sr_breakdown (calculateScore exampleInput)) \<noteq> 14 \<and>
   sr_total (calculateScore exampleInput) = 61 \<and>
   sr_total (calculateScore exampleInput) \<noteq> 65"
  unfolding example_total example_breakdown by simp

section \<open>Price override and round trips\<close>

text \<open>
  Claim C10. Two override prices in the same band of \<^verbatim>\<open>getPriceRangeFromAmount\<close> give
  identical results of \<^verbatim>\<open>calculateScoreAtPrice\<close>.
\<close>

theorem calculateScoreAtPrice_same_band:
  "getPriceRangeFromAmount p1 = getPriceRangeFromAmount p2 \<Longrightarrow>
     calculateScoreAtPrice input p1 = calculateScoreAtPrice input p2"
  by (simp add: calculateScoreAtPrice_def)

theorem calculateScoreAtPrice_same_band_witness:
  "getPriceRangeFromAmount 500000 = getPriceRangeFromAmount 599999 \<and>
   calculateScoreAtPrice exampleInput 500000 = calculateScoreAtPrice exampleInput 599999"
proof -
  have h: "getPriceRangeFromAmount 500000 = getPriceRangeFromAmount 599999"
    by (simp add: getPriceRangeFromAmount_def)
  show ?thesis
    using h calculateScoreAtPrice_same_band [OF h, of exampleInput] by simp
qed

text \<open>
  Claim C8, as amended. Every defined token of the income, price, down payment and monthly
  debt tables, and every credit token but \<^verbatim>\<open>"not-sure"\<close>, is returned by the round trip;
  \<^verbatim>\<open>"not-sure"\<close> resolves to \<^verbatim>\<open>null\<close>, which the reverse mapping sends to \<^verbatim>\<open>null\<close>.
\<close>

theorem roundTrip_tokens:
  "map creditRoundTrip (map fst creditMapping) =
     [Some ''below-580'', Some ''580-619'', Some ''620-659'', Some ''660-699'',
      Some ''700-739'', Some ''740-plus'', None] \<and>
   map fst creditMapping =
     [''below-580'', ''580-619'', ''620-659'', ''660-699'', ''700-739'', ''740-plus'',
      ''not-sure''] \<and>
   map incomeRoundTrip (map fst incomeMapping) = map fst incomeMapping \<and>
   map priceRoundTrip (map fst priceMapping) = map fst priceMapping \<and>
   map downPaymentRoundTrip (map fst downPaymentMapping) = map fst downPaymentMapping \<and>
   map monthlyDebtRoundTrip (map fst monthlyDebtMapping) = map fst monthlyDebtMapping"
  by (simp add: creditRoundTrip_def incomeRoundTrip_def priceRoundTrip_def
        downPaymentRoundTrip_def monthlyDebtRoundTrip_def
        credit_resolved income_resolved price_resolved downPayment_resolved monthlyDebt_resolved
        creditMapping_def incomeMapping_def priceMapping_def downPaymentMapping_def
        monthlyDebtMapping_def inheritedToken_def objectPrototypeKeys_def
        getCreditScoreRange_def getIncomeRange_def getPriceRange_def getPriceRangeFromAmount_def
        getDownPaymentRange_def getMonthlyDebtRange_def)

theorem roundTrip_not_sure_counterexample:
  "''not-sure'' \<in> set (map fst creditMapping) \<and> creditRoundTrip ''not-sure'' \<noteq> Some ''not-sure''"
  by (simp add: creditRoundTrip_def credit_resolved creditMapping_def inheritedToken_def
        objectPrototypeKeys_def getCreditScoreRange_def)

section \<open>Programs\<close>

lemma matchPrograms_names:
  "map p_name (matchPrograms cs ftb vs income) =
     (if isVeteranEligible vs then [''VA Loan''] else []) @
     (if toNumber (orElse cs (Number 650)) \<ge> 580 then [''FHA Loan''] else []) @
     (if toNumber (orElse cs (Number 650)) \<ge> 620 then [''Conventional Loan''] else []) @
     (if ftb = Some True \<and> toNumber (orElse cs (Number 650)) \<ge> 660 \<and> income < 141400
      then [''Utah FirstHome''] else []) @
     (if toNumber (orElse cs (Number 650)) \<ge> 660 \<and> income < 141400
      then [''Utah HomeAgain''] else [])"
  by (simp add: matchPrograms_def Let_def)

lemma matchPrograms_shape:
  "subseq (map p_name (matchPrograms cs ftb vs income)) programCatalog \<and>
   list_all p_eligible (matchPrograms cs ftb vs income) \<and>
   map p_name (filter p_eligible (matchPrograms cs ftb vs income)) =
     map p_name (matchPrograms cs ftb vs income)"
  by (simp add: matchPrograms_def programCatalog_def Let_def)

text \<open>
  Claim C4, as amended. The \<^verbatim>\<open>programDetails\<close> returned by \<^verbatim>\<open>calculateScore\<close> hold a
  record for a catalog program exactly when the program's eligibility test holds: VA for
  one of the four veteran statuses, FHA for a score of at least 580, Conventional for a
  score of at least 620, Utah FirstHome for a first-time buyer with a score of at least 660
  and an income below 141400, Utah HomeAgain for a score of at least 660 and an income below
  141400, where the score is the resolved credit score, or 650 when that is unknown. The
  records are in catalog order, each has \<^verbatim>\<open>eligible: true\<close>, an ineligible program has no
  record, and the short \<^verbatim>\<open>programs\<close> list is the list of the names of the records.
\<close>

theorem programDetails_eligible_only:
  "map p_name (sr_programDetails (calculateScore input)) =
     (if isVeteranEligible (in_veteranStatus input) then [''VA Loan''] else []) @
     (if toNumber (orElse (getCreditScore (in_creditScoreRange input)) (Number 650)) \<ge> 580
      then [''FHA Loan''] else []) @
     (if toNumber (orElse (getCreditScore (in_creditScoreRange input)) (Number 650)) \<ge> 620
      then [''Conventional Loan''] else []) @
     (if in_firstTimeBuyer input = Some True \<and>
         toNumber (orElse (getCreditScore (in_creditScoreRange input)) (Number 650)) \<ge> 660 \<and>
         toNumber (getIncomeAmount (in_annualIncome input)) < 141400
      then [''Utah FirstHome''] else []) @
     (if toNumber (orElse (getCreditScore (in_creditScoreRange input)) (Number 650)) \<ge> 660 \<and>
         toNumber (getIncomeAmount (in_annualIncome input)) < 141400
      then [''Utah HomeAgain''] else []) \<and>
   subseq (map p_name (sr_programDetails (calculateScore input))) programCatalog \<and>
   list_all p_eligible (sr_programDetails (calculateScore input)) \<and>
   sr_programs (calculateScore input) = map p_name (sr_programDetails (calculateScore input))"
  unfolding calculateScore_programs
  using matchPrograms_shape matchPrograms_names by simp

theorem programDetails_counterexample:
  "map p_name (sr_programDetails (calculateScore exampleInput)) =
     [''FHA Loan'', ''Conventional Loan''] \<and>
   length (sr_programDetails (calculateScore exampleInput)) \<noteq> 5 \<and>
   list_all p_eligible (sr_programDetails (calculateScore exampleInput))"
  unfolding calculateScore_programs example_resolved
  by (simp add: matchPrograms_def orElse_def isVeteranEligible_def Let_def)

lemma income_strict:
  "toNumber (getIncomeAmount t) < 141400 \<longleftrightarrow> toNumber (getIncomeAmount t) \<le> 141400"
  by (simp add: income_resolved)

lemma mem_if_single: "x \<in> set (if c then [y] else []) \<longleftrightarrow> c \<and> x = y"
  by auto

lemma checkDPAEligibility_utah:
  "dpa_firstHome (checkDPAEligibility cs annualIncome tp ftb vs) \<longleftrightarrow>
     ftb = Some True \<and> toNumber (orElse cs (Number 650)) \<ge> 660 \<and> annualIncome \<le> 141400"
  "dpa_homeAgain (checkDPAEligibility cs annualIncome tp ftb vs) \<longleftrightarrow>
     toNumber (orElse cs (Number 650)) \<ge> 660 \<and> annualIncome \<le> 141400"
  by (simp_all add: checkDPAEligibility_def Let_def firstHome_minCreditScore_def
        firstHome_incomeLimitLargeHousehold_def homeAgain_minCreditScore_def
        homeAgain_incomeLimit_def)

lemma programs_utah:
  "''Utah FirstHome'' \<in> set (sr_programs (calculateScore input)) \<longleftrightarrow>
     in_firstTimeBuyer input = Some True \<and>
     toNumber (orElse (getCreditScore (in_creditScoreRange input)) (Number 650)) \<ge> 660 \<and>
     toNumber (getIncomeAmount (in_annualIncome input)) \<le> 141400"
  "''Utah HomeAgain'' \<in> set (sr_programs (calculateScore input)) \<longleftrightarrow>
     toNumber (orElse (getCreditScore (in_creditScoreRange input)) (Number 650)) \<ge> 660 \<and>
     toNumber (getIncomeAmount (in_annualIncome input)) \<le> 141400"
proof -
  have n: "sr_programs (calculateScore input) =
      map p_name (matchPrograms (getCreditScore (in_creditScoreRange input))
        (in_firstTimeBuyer input) (in_veteranStatus input)
        (toNumber (getIncomeAmount (in_annualIncome input))))"
    unfolding calculateScore_programs using matchPrograms_shape by simp
  show "''Utah FirstHome'' \<in> set (sr_programs (calculateScore input)) \<longleftrightarrow>
     in_firstTimeBuyer input = Some True \<and>
     toNumber (orElse (getCreditScore (in_creditScoreRange input)) (Number 650)) \<ge> 660 \<and>
     toNumber (getIncomeAmount (in_annualIncome input)) \<le> 141400"
    unfolding n matchPrograms_names set_append Un_iff mem_if_single income_strict by simp
  show "''Utah HomeAgain'' \<in> set (sr_programs (calculateScore input)) \<longleftrightarrow>
     toNumber (orElse (getCreditScore (in_creditScoreRange input)) (Number 650)) \<ge> 660 \<and>
     toNumber (getIncomeAmount (in_annualIncome input)) \<le> 141400"
    unfolding n matchPrograms_names set_append Un_iff mem_if_single income_strict by auto
qed

text \<open>
  Claim C5. For an input whose credit range resolves to a score of at least 660, the
  \<^verbatim>\<open>programs\<close> returned by \<^verbatim>\<open>calculateScore\<close> list Utah FirstHome exactly when the
  first-time-buyer flag is true and the annual income is at most 141400, and Utah HomeAgain
  exactly when the annual income is at most 141400; \<^verbatim>\<open>checkDPAEligibility\<close> decides the
  same for every annual income, so that an income of exactly 141400 is eligible. For an
  input whose credit is unknown neither program is listed or eligible.

  \<^verbatim>\<open>matchPrograms\<close> tests \<^verbatim>\<open>income < 141400\<close>. The income it receives from
  \<^verbatim>\<open>calculateScore\<close> is a value of the income table, the default, or an inherited member;
  none of them is 141400, where alone the two tests differ.
\<close>

theorem utah_programs_eligibility:
  "(getCreditScore (in_creditScoreRange input) = Number c \<and> 660 \<le> c \<longrightarrow>
      (''Utah FirstHome'' \<in> set (sr_programs (calculateScore input)) \<longleftrightarrow>
         in_firstTimeBuyer input = Some True \<and>
         toNumber (getIncomeAmount (in_annualIncome input)) \<le> 141400) \<and>
      (''Utah HomeAgain'' \<in> set (sr_programs (calculateScore input)) \<longleftrightarrow>
         toNumber (getIncomeAmount (in_annualIncome input)) \<le> 141400) \<and>
      (dpa_firstHome (checkDPAEligibility (Number c) annualIncome targetPrice ftb vs) \<longleftrightarrow>
         ftb = Some True \<and> annualIncome \<le> 141400) \<and>
      (dpa_homeAgain (checkDPAEligibility (Number c) annualIncome targetPrice ftb vs) \<longleftrightarrow>
         annualIncome \<le> 141400)) \<and>
   (getCreditScore (in_creditScoreRange input) = Null \<longrightarrow>
      ''Utah FirstHome'' \<notin> set (sr_programs (calculateScore input)) \<and>
      ''Utah HomeAgain'' \<notin> set (sr_programs (calculateScore input)) \<and>
      \<not> dpa_firstHome (checkDPAEligibility Null annualIncome targetPrice ftb vs) \<and>
      \<not> dpa_homeAgain (checkDPAEligibility Null annualIncome targetPrice ftb vs))"
  unfolding programs_utah checkDPAEligibility_utah
  by (auto simp: orElse_def)

lemma firstTime_resolved:
  "getCreditScore (in_creditScoreRange firstTimeInput) = Number 680"
  "getIncomeAmount (in_annualIncome firstTimeInput) = Number 125000"
  "in_firstTimeBuyer firstTimeInput = Some True"
  by (simp_all add: firstTimeInput_def credit_resolved income_resolved inheritedToken_def
        objectPrototypeKeys_def)

theorem utah_programs_eligibility_witness:
  "getCreditScore (in_creditScoreRange firstTimeInput) = Number 680 \<and> (660::real) \<le> 680 \<and>
   ''Utah FirstHome'' \<in> set (sr_programs (calculateScore firstTimeInput)) \<and>
   ''Utah HomeAgain'' \<in> set (sr_programs (calculateScore firstTimeInput)) \<and>
   dpa_firstHome (checkDPAEligibility (Number 680) 141400 500000 (Some True) None) \<and>
   dpa_homeAgain (checkDPAEligibility (Number 680) 141400 500000 (Some True) None) \<and>
   getCreditScore (in_creditScoreRange exampleInput) = Null \<and>
   ''Utah FirstHome'' \<notin> set (sr_programs (calculateScore exampleInput)) \<and>
   ''Utah HomeAgain'' \<notin> set (sr_programs (calculateScore exampleInput))"
  using utah_programs_eligibility [of firstTimeInput 680 141400 500000 "Some True" None]
    utah_programs_eligibility [of exampleInput 0 141400 500000 "Some True" None]
  by (simp add: firstTime_resolved example_resolved)

section \<open>Inherited tokens\<close>

lemma empty_resolved:
  "getCreditScore None = Null"
  "getIncomeAmount None = Number 60000"
  "getPriceAmount None = Number 500000"
  "getDownPaymentAmount None = Number 20000"
  "getMonthlyDebtAmount None = Number 0"
  by (simp_all add: getCreditScore_def getIncomeAmount_def getPriceAmount_def
        getDownPaymentAmount_def getMonthlyDebtAmount_def)

lemma inherited_resolved:
  "getIncomeAmount (Some ''toString'') = Inherited"
  "getMonthlyDebtAmount (Some ''toString'') = Inherited"
  "getPriceAmount (Some ''valueOf'') = Inherited"
  by (simp_all add: income_resolved monthlyDebt_resolved price_resolved inheritedToken_def
        objectPrototypeKeys_def)

lemma resolved_income_positive:
  "\<not> inheritedToken t \<Longrightarrow>
     \<exists>x. getIncomeAmount t = Number x \<and> 0 < x \<and> toNumber (getIncomeAmount t) / 12 = Fin (x / 12)"
  by (simp add: income_resolved)

lemma resolved_price_positive:
  assumes "\<not> inheritedToken t"
  shows "\<exists>x y. toNumber (getPriceAmount t) = Fin x \<and> 0 < x \<and>
               estimateMonthlyPayment (Fin x) 0.035 = Fin y \<and> 0 < y"
proof -
  obtain x where x: "toNumber (getPriceAmount t) = Fin x" "0 < x"
    using assms by (simp add: price_resolved)
  have "0 < x * payRate + 100" using x(2) payRate_pos by (simp add: add_pos_pos)
  then show ?thesis using x by (simp add: pay35)
qed

lemma default_payment:
  "estimateMonthlyPayment (Fin 500000) 0.035 = Fin (500000 * payRate + 100)"
  "3814 \<le> 500000 * payRate + 100" "500000 * payRate + 100 \<le> 3815"
  using payRate_bounds by (simp_all add: pay35)

lemma calculateDtiPoints_nan: "calculateDtiPoints NaN targetPrice monthlyDebts = 0"
  by (simp add: calculateDtiPoints_def Let_def)

lemma default_downPaymentPoints:
  "calculateDownPaymentPoints (Fin 20000) (Fin 500000) None = 7"
  by (simp add: calculateDownPaymentPoints_def isVeteranEligible_def Let_def)

lemma default_reservesPoints: "calculateReservesPoints (Fin 20000) (Fin 500000) = 0"
proof -
  have "500000 * payRate + 100 \<noteq> 0" using default_payment(2) by simp
  then show ?thesis
    unfolding calculateReservesPoints_def Let_def default_payment(1)
    using default_payment(2,3) by (simp add: pos_le_divide_eq)
qed

lemma empty_points:
  "calculateCreditPoints Null = 15" "calculateEmploymentPoints = 12"
  "calculateBonusPoints None None = 0"
  by (simp_all add: calculateCreditPoints_def calculateEmploymentPoints_def
        calculateBonusPoints_def isVeteranEligible_def)

lemma inheritedIncome_breakdown:
  "sr_breakdown (calculateScore inheritedIncomeInput) =
     \<lparr>b_credit = 15, b_dti = 0, b_downPayment = 7, b_employment = 12,
      b_reserves = 0, b_bonus = 0, b_penalty = 0\<rparr>"
proof -
  have i: "in_creditScoreRange inheritedIncomeInput = None"
    "in_annualIncome inheritedIncomeInput = Some ''toString''"
    "in_priceRange inheritedIncomeInput = None" "in_downPayment inheritedIncomeInput = None"
    "in_monthlyDebts inheritedIncomeInput = None" "in_firstTimeBuyer inheritedIncomeInput = None"
    "in_veteranStatus inheritedIncomeInput = None"
    by (simp_all add: inheritedIncomeInput_def emptyInput_def)
  have n: "NaN / 12 = NaN" by simp
  show ?thesis
    unfolding calculateScore_breakdown i empty_resolved inherited_resolved toNumber_simps n
      calculateDtiPoints_nan default_downPaymentPoints default_reservesPoints empty_points ..
qed

text \<open>
  Claim C9. The income token \<^verbatim>\<open>"toString"\<close> does not resolve to the default 60000:
  the lookup finds the member that the mapping object inherits. \<^verbatim>\<open>calculateScore\<close>
  returns a result for it, in which the monthly income is NaN, not a positive number, and
  the total is 34.
\<close>

theorem inherited_token_not_defaulted:
  "getIncomeAmount (Some ''toString'') = Inherited \<and>
   getIncomeAmount (Some ''toString'') \<noteq> Number 60000 \<and>
   toNumber (getIncomeAmount (in_annualIncome inheritedIncomeInput)) = NaN \<and>
   pv_monthlyIncome (sr_parsedValues (calculateScore inheritedIncomeInput)) = NaN \<and>
   \<not> 0 < pv_monthlyIncome (sr_parsedValues (calculateScore inheritedIncomeInput)) \<and>
   sr_total (calculateScore inheritedIncomeInput) = 34"
proof -
  have i: "in_annualIncome inheritedIncomeInput = Some ''toString''"
    by (simp add: inheritedIncomeInput_def emptyInput_def)
  have t: "sr_total (calculateScore inheritedIncomeInput) = 34"
    unfolding calculateScore_total inheritedIncome_breakdown by simp
  show ?thesis
    unfolding calculateScore_parsedValues i inherited_resolved t by simp
qed

section \<open>The affordability inverter on NaN\<close>

lemma priceLoop_nan: "priceLoop n NaN dp NaN = NaN"
  by (induction n) (simp_all add: Let_def)

lemma priceLoop_nan_budget: "priceLoop (Suc n) NaN dp price = NaN"
  by (simp add: Let_def priceLoop_nan)

lemma calculateMaxPriceForDti_nan_debts: "calculateMaxPriceForDti monthlyIncome NaN dti dp = NaN"
proof -
  have "priceLoop 20 NaN dp 300000 = NaN"
    using priceLoop_nan_budget [of 19 dp 300000] by simp
  then show ?thesis by (simp add: calculateMaxPriceForDti_def Let_def)
qed

lemma calculateSweetSpot_nan_debts:
  "ss_recommendedPrice (calculateSweetSpot monthlyIncome NaN saved targetPrice input) = NaN"
  by (simp add: calculateSweetSpot_def Let_def calculateMaxPriceForDti_nan_debts)

text \<open>
  Claim C2. With the monthly debts token \<^verbatim>\<open>"toString"\<close> and every other field
  \<^verbatim>\<open>null\<close>, the resolved target price is the default 500000 and the recommended price
  of the sweet spot is NaN, which is not less than or equal to 500000.
\<close>

theorem sweetSpot_inherited_debts:
  "pv_targetPrice (sr_parsedValues (calculateScore inheritedDebtsInput)) = Number 500000 \<and>
   ss_recommendedPrice (sr_sweetSpot (calculateScore inheritedDebtsInput)) = NaN \<and>
   \<not> ss_recommendedPrice (sr_sweetSpot (calculateScore inheritedDebtsInput)) \<le> 500000"
proof -
  have i: "in_priceRange inheritedDebtsInput = None"
    "in_monthlyDebts inheritedDebtsInput = Some ''toString''"
    by (simp_all add: inheritedDebtsInput_def emptyInput_def)
  show ?thesis
    unfolding calculateScore_parsedValues calculateScore_sweetSpot i empty_resolved
      inherited_resolved toNumber_simps calculateSweetSpot_nan_debts
    by simp
qed

section \<open>Primary blocker\<close>

lemma nan_downPaymentPoints: "calculateDownPaymentPoints saved NaN None = 1"
  by (simp add: calculateDownPaymentPoints_def isVeteranEligible_def Let_def)

lemma nan_price_blocker:
  "detectPrimaryBlocker Null creditPoints dtiPoints 1 monthlyIncome monthlyDebts NaN
     (Fin 20000) None (Fin 60000) None =
   Some \<lparr>pb_type = DOWN_PAYMENT, pb_severity = Significant, pb_solutions = []\<rparr>"
proof -
  have d: "calculateCurrentDti monthlyIncome monthlyDebts NaN = NaN"
    by (simp add: calculateCurrentDti_def)
  have e: "\<not> dpa_firstHome (checkDPAEligibility Null (Fin 60000) NaN None None)"
    "\<not> dpa_homeAgain (checkDPAEligibility Null (Fin 60000) NaN None None)"
    by (simp_all add: checkDPAEligibility_def Let_def orElse_def homeAgain_minCreditScore_def)
  show ?thesis
    unfolding detectPrimaryBlocker_def Let_def estimateMonthlyPayment_nan d
    using e by (simp add: isVeteranEligible_def homeAgain_incomeLimit_def)
qed

text \<open>
  Claim C6. With the price token \<^verbatim>\<open>"valueOf"\<close> and every other field \<^verbatim>\<open>null\<close>,
  \<^verbatim>\<open>calculateScore\<close> returns a down payment blocker whose list of solutions is empty.
\<close>

theorem primaryBlocker_without_solutions:
  "sr_primaryBlocker (calculateScore inheritedPriceInput) =
     Some \<lparr>pb_type = DOWN_PAYMENT, pb_severity = Significant, pb_solutions = []\<rparr> \<and>
   getPriceAmount (in_priceRange inheritedPriceInput) = Inherited"
proof -
  have i: "in_creditScoreRange inheritedPriceInput = None"
    "in_annualIncome inheritedPriceInput = None"
    "in_priceRange inheritedPriceInput = Some ''valueOf''"
    "in_downPayment inheritedPriceInput = None"
    "in_monthlyDebts inheritedPriceInput = None" "in_firstTimeBuyer inheritedPriceInput = None"
    "in_veteranStatus inheritedPriceInput = None"
    by (simp_all add: inheritedPriceInput_def emptyInput_def)
  have b: "b_downPayment (sr_breakdown (calculateScore inheritedPriceInput)) = 1"
    unfolding calculateScore_breakdown i empty_resolved inherited_resolved toNumber_simps
    by (simp add: nan_downPaymentPoints)
  show ?thesis
    unfolding calculateScore_primaryBlocker b
    unfolding i empty_resolved inherited_resolved toNumber_simps nan_price_blocker
    by simp
qed

section \<open>Path to goal\<close>

lemma calculatePathToGoal_null:
  assumes "\<bar>tp - ss_recommendedPrice ss\<bar> < 10000 \<or> tp < ss_recommendedPrice ss \<or>
         requiredChangesAt mi md saved tp = []"
  shows "calculatePathToGoal mi md saved tp ss cur = None"
  using assms unfolding calculatePathToGoal_def Let_def by auto

lemma comfortable_resolved:
  "getIncomeAmount (in_annualIncome comfortableInput) = Number 250000"
  "getPriceAmount (in_priceRange comfortableInput) = Number 350000"
  "getDownPaymentAmount (in_downPayment comfortableInput) = Number 20000"
  "getMonthlyDebtAmount (in_monthlyDebts comfortableInput) = Number 0"
  by (simp_all add: comfortableInput_def income_resolved price_resolved
        downPayment_resolved monthlyDebt_resolved inheritedToken_def objectPrototypeKeys_def)

lemma comfortable_changes:
  "requiredChangesAt (Fin 250000 / 12) (Fin 0) (Fin 20000) (Fin 350000) = []"
proof -
  have p: "estimateMonthlyPayment (Fin 350000) 0.035 = Fin (350000 * payRate + 100)"
    by (rule estimateMonthlyPayment_default)
  have b: "350000 * payRate + 100 \<le> 2701" using payRate_bounds by simp
  have "calculateCurrentDti (Fin 250000 / 12) (Fin 0) (Fin (350000 * payRate + 100)) \<le> 43"
    using b by (simp add: calculateCurrentDti_def floor_le_iff field_simps)
  then have "\<not> calculateCurrentDti (Fin 250000 / 12) (Fin 0) (Fin (350000 * payRate + 100)) > 43"
    by (rule le_not_less)
  then show ?thesis
    unfolding requiredChangesAt_def Let_def p by simp
qed

text \<open>
  Claim C7. The \<^verbatim>\<open>pathToGoal\<close> returned by \<^verbatim>\<open>calculateScore\<close> is \<^verbatim>\<open>null\<close> whenever the
  resolved target price and the recommended price of the sweet spot differ by less than
  10000, whenever the target price is below the recommended price, and whenever the
  required changes computed at the target price are none.
\<close>

theorem pathToGoal_null:
  "\<bar>toNumber (pv_targetPrice (sr_parsedValues (calculateScore input))) -
      ss_recommendedPrice (sr_sweetSpot (calculateScore input))\<bar> < 10000 \<or>
   toNumber (pv_targetPrice (sr_parsedValues (calculateScore input))) <
      ss_recommendedPrice (sr_sweetSpot (calculateScore input)) \<or>
   requiredChangesAt (pv_monthlyIncome (sr_parsedValues (calculateScore input)))
      (toNumber (pv_monthlyDebts (sr_parsedValues (calculateScore input))))
      (toNumber (pv_savedAmount (sr_parsedValues (calculateScore input))))
      (toNumber (pv_targetPrice (sr_parsedValues (calculateScore input)))) = []
   \<longrightarrow> sr_pathToGoal (calculateScore input) = None"
proof
  assume a: "\<bar>toNumber (pv_targetPrice (sr_parsedValues (calculateScore input))) -
      ss_recommendedPrice (sr_sweetSpot (calculateScore input))\<bar> < 10000 \<or>
   toNumber (pv_targetPrice (sr_parsedValues (calculateScore input))) <
      ss_recommendedPrice (sr_sweetSpot (calculateScore input)) \<or>
   requiredChangesAt (pv_monthlyIncome (sr_parsedValues (calculateScore input)))
      (toNumber (pv_monthlyDebts (sr_parsedValues (calculateScore input))))
      (toNumber (pv_savedAmount (sr_parsedValues (calculateScore input))))
      (toNumber (pv_targetPrice (sr_parsedValues (calculateScore input)))) = []"
  show "sr_pathToGoal (calculateScore input) = None"
    unfolding calculateScore_pathToGoal
    by (rule calculatePathToGoal_null) (use a in \<open>simp add: calculateScore_parsedValues\<close>)
qed

theorem pathToGoal_null_witness:
  "requiredChangesAt (pv_monthlyIncome (sr_parsedValues (calculateScore comfortableInput)))
      (toNumber (pv_monthlyDebts (sr_parsedValues (calculateScore comfortableInput))))
      (toNumber (pv_savedAmount (sr_parsedValues (calculateScore comfortableInput))))
      (toNumber (pv_targetPrice (sr_parsedValues (calculateScore comfortableInput)))) = [] \<and>
   sr_pathToGoal (calculateScore comfortableInput) = None"
proof -
  have c: "requiredChangesAt (pv_monthlyIncome (sr_parsedValues (calculateScore comfortableInput)))
      (toNumber (pv_monthlyDebts (sr_parsedValues (calculateScore comfortableInput))))
      (toNumber (pv_savedAmount (sr_parsedValues (calculateScore comfortableInput))))
      (toNumber (pv_targetPrice (sr_parsedValues (calculateScore comfortableInput)))) = []"
    unfolding calculateScore_parsedValues comfortable_resolved
    using comfortable_changes by simp
  then show ?thesis using pathToGoal_null [of comfortableInput] by simp
qed

section \<open>The zero test of the affordability inverter\<close>

text \<open>
  With a monthly income of 100, monthly debts of 7 and a target ratio of 7, the quotient
  \<open>7 / 100\<close> rounds up, its product with 100 rounds to \<open>7 + 2\<^sup>-\<^sup>5\<^sup>0\<close>, and the housing budget
  is \<open>2\<^sup>-\<^sup>5\<^sup>0\<close>, not 0.
\<close>

lemma fl_ratio: "fl (Fin (7 / 100)) = Fin (5044031582654956 / 2 ^ 56)"
proof -
  have "fl (Fin (7 / 100)) = Fin (pow2 (- 4 - 52) * of_int 5044031582654956)"
  proof (rule fl_pos)
    show "binade (7 / 100) = - 4" by (simp add: binade_def compute_floorlog)
    show "roundHalfEven (7 / 100 / pow2 (- 4 - 52)) = 5044031582654956"
      by (simp add: roundHalfEven_def pow2_def Let_def)
    show "pow2 (- 4 - 52) * of_int 5044031582654956 < pow2 1024"
      by (simp add: pow2_def)
  qed simp_all
  then show ?thesis by (simp add: pow2_def)
qed

lemma fl_ceiling: "fl (Fin (100 * (5044031582654956 / 2 ^ 56))) = Fin (7 + 1 / 2 ^ 50)"
proof -
  have "fl (Fin (100 * (5044031582654956 / 2 ^ 56))) =
          Fin (pow2 (2 - 52) * of_int 7881299347898369)"
  proof (rule fl_pos)
    show "binade (100 * (5044031582654956 / 2 ^ 56)) = 2"
      by (simp add: binade_def compute_floorlog)
    show "roundHalfEven (100 * (5044031582654956 / 2 ^ 56) / pow2 (2 - 52)) = 7881299347898369"
      by (simp add: roundHalfEven_def pow2_def Let_def)
    show "pow2 (2 - 52) * of_int 7881299347898369 < pow2 1024"
      by (simp add: pow2_def)
  qed simp_all
  then show ?thesis by (simp add: pow2_def)
qed

lemma fl_budget: "fl (Fin (1 / 2 ^ 50)) = Fin (1 / 2 ^ 50)"
proof -
  have "fl (Fin (1 / 2 ^ 50)) = Fin (pow2 (- 50 - 52) * of_int 4503599627370496)"
  proof (rule fl_pos)
    show "binade (1 / 2 ^ 50) = - 50" by (simp add: binade_def compute_floorlog)
    show "roundHalfEven (1 / 2 ^ 50 / pow2 (- 50 - 52)) = 4503599627370496"
      by (simp add: roundHalfEven_def pow2_def Let_def)
    show "pow2 (- 50 - 52) * of_int 4503599627370496 < pow2 1024"
      by (simp add: pow2_def)
  qed simp_all
  then show ?thesis by (simp add: pow2_def)
qed

lemma zero_test_rounding:
  "fl (fl (Fin 100 * fl (Fin 7 / Fin 100)) - Fin 7) = Fin (1 / 2 ^ 50)"
proof -
  have a: "Fin 7 / Fin 100 = Fin (7 / 100)" by simp
  have c: "Fin 100 * Fin (5044031582654956 / 2 ^ 56) = Fin (100 * (5044031582654956 / 2 ^ 56))"
    by (rule fin_mul)
  have e: "Fin (7 + 1 / 2 ^ 50) - Fin 7 = Fin (1 / 2 ^ 50)" by simp
  show ?thesis unfolding a fl_ratio c fl_ceiling e fl_budget ..
qed

lemma priceLoop_step_small:
  assumes "0 < m" "m \<le> 700" "0 \<le> p"
  shows "priceLoop (Suc n) (Fin m) 0.035 (Fin p) = priceLoop n (Fin m) 0.035 (Fin 100000)"
proof -
  have pos: "0 < p * payRate + 100" using assms(3) payRate_pos by (simp add: add_nonneg_pos)
  then have ne: "p * payRate + 100 \<noteq> 0" by simp
  have "p * m \<le> (p * payRate + 100) * (m / payRate)"
    using assms(1,3) payRate_pos by (simp add: field_simps)
  then have "p * m / (p * payRate + 100) \<le> m / payRate"
    using pos by (simp add: pos_divide_le_eq mult.commute)
  also have "\<dots> \<le> 100000"
    using assms(2) payRate_bounds(1) payRate_pos by (simp add: pos_divide_le_eq)
  finally have le: "p * (m / (p * payRate + 100)) \<le> 100000" by simp
  show ?thesis using ne le by (simp add: Let_def pay35)
qed

lemma priceLoop_small:
  assumes "0 < m" "m \<le> 700"
  shows "priceLoop n (Fin m) 0.035 (Fin 100000) = Fin 100000"
proof (induction n)
  case 0
  show ?case by simp
next
  case (Suc n)
  show ?case using priceLoop_step_small [OF assms, of 100000 n] Suc.IH by simp
qed

text \<open>
  Claim C3. At a monthly income of 100, monthly debts of 7 and a target ratio of 7, where
  \<open>100 * 7 / 100 \<le> 7\<close>, \<^verbatim>\<open>calculateMaxPriceForDti\<close> returns 100000, not 0.
\<close>

theorem calculateMaxPriceForDti_rounding:
  "calculateMaxPriceForDti 100 7 7 0.035 = 100000 \<and>
   calculateMaxPriceForDti 100 7 7 0.035 \<noteq> 0 \<and>
   (100 * 7 / 100 :: jsnum) \<le> 7"
proof -
  have m: "fl (fl (100 * fl (7 / 100)) - 7) = Fin (1 / 2 ^ 50)"
    using zero_test_rounding by simp
  have "priceLoop (Suc 19) (Fin (1 / 2 ^ 50)) 0.035 (Fin 300000) =
          priceLoop 19 (Fin (1 / 2 ^ 50)) 0.035 (Fin 100000)"
    by (rule priceLoop_step_small) simp_all
  also have "\<dots> = Fin 100000" by (rule priceLoop_small) simp_all
  finally have l: "priceLoop 20 (Fin (1 / 2 ^ 50)) 0.035 300000 = Fin 100000" by simp
  have "calculateMaxPriceForDti 100 7 7 0.035 = 100000"
    unfolding calculateMaxPriceForDti_def Let_def m l by simp
  then show ?thesis by simp
qed

section \<open>Range of the affordability inverter\<close>

text \<open>
  When the rounded housing budget is a number and positive, every pass of the loop clamps
  the price, and the result is a multiple of 5000 between 100000 and 2000000.
\<close>

lemma fl_fin_not_nan: "fl (Fin x) \<noteq> NaN"
  by (simp add: fl_def Let_def)

lemma fl_not_nan: "v \<noteq> NaN \<Longrightarrow> fl v \<noteq> NaN"
  by (cases v) (simp_all add: fl_fin_not_nan, simp_all add: fl_def)

lemma sub_fin_not_nan: "v \<noteq> NaN \<Longrightarrow> v - Fin d \<noteq> NaN"
  by (cases v) (simp_all add: num_ops)

lemma clamp_cases:
  "x \<noteq> NaN \<Longrightarrow> \<exists>y. js_max 100000 (js_min 2000000 x) = Fin y \<and> 100000 \<le> y \<and> y \<le> 2000000"
  by (cases x) auto

lemma positive_cases:
  assumes "m \<noteq> NaN" "\<not> m \<le> 0"
  obtains x where "m = Fin x" "0 < x" | "m = PosInf"
  using assms by (cases m) auto

lemma scaled_not_nan:
  assumes "m \<noteq> NaN" "\<not> m \<le> 0" "0 < p"
  shows "Fin p * (m / Fin y) \<noteq> NaN"
  using assms(1,2)
proof (cases m rule: positive_cases)
  case (1 x)
  then show ?thesis using assms(3) by (cases "y = 0") (simp_all add: num_ops)
next
  case 2
  then show ?thesis using assms(3) by (simp add: num_ops)
qed

lemma priceLoop_clamped:
  assumes "m \<noteq> NaN" "\<not> m \<le> 0" "0 < p"
  shows "\<exists>x. priceLoop (Suc n) m (Fin dp) (Fin p) = Fin x \<and> 100000 \<le> x \<and> x \<le> 2000000"
  using assms(3)
proof (induction n arbitrary: p)
  case 0
  obtain y where y: "estimateMonthlyPayment (Fin p) (Fin dp) = Fin y"
    by (simp add: estimateMonthlyPayment_amort)
  have "Fin p * (m / Fin y) \<noteq> NaN" using assms(1,2) 0 by (rule scaled_not_nan)
  then show ?case using clamp_cases by (simp add: Let_def y)
next
  case (Suc n)
  obtain y where y: "estimateMonthlyPayment (Fin p) (Fin dp) = Fin y"
    by (simp add: estimateMonthlyPayment_amort)
  have "Fin p * (m / Fin y) \<noteq> NaN" using assms(1,2) Suc.prems by (rule scaled_not_nan)
  then obtain q where q: "js_max 100000 (js_min 2000000 (Fin p * (m / Fin y))) = Fin q"
    "100000 \<le> q" "q \<le> 2000000"
    using clamp_cases by blast
  have "priceLoop (Suc (Suc n)) m (Fin dp) (Fin p) = priceLoop (Suc n) m (Fin dp) (Fin q)"
    using q(1) by (simp add: Let_def y)
  moreover have "0 < q" using q(2) by simp
  ultimately show ?case using Suc.IH [of q] by simp
qed

lemma round5000:
  assumes "100000 \<le> x" "x \<le> 2000000"
  shows "\<exists>k::int. js_round (Fin x / 5000) * 5000 = Fin (5000 * of_int k) \<and> 20 \<le> k \<and> k \<le> 400"
proof -
  have "(20::int) \<le> \<lfloor>x / 5000 + 1 / 2\<rfloor>" using assms(1) by (simp add: le_floor_iff)
  moreover have "\<lfloor>x / 5000 + 1 / 2\<rfloor> < (401::int)" using assms(2) by (simp add: floor_less_iff)
  ultimately show ?thesis by (simp add: mult.commute)
qed

lemma calculateMaxPriceForDti_range:
  assumes "fl (fl (mi * fl (t / 100)) - md) \<noteq> NaN"
  shows "calculateMaxPriceForDti mi md t (Fin dp) = 0 \<or>
         (\<exists>k::int. calculateMaxPriceForDti mi md t (Fin dp) = Fin (5000 * of_int k) \<and>
                   20 \<le> k \<and> k \<le> 400)"
proof (cases "fl (fl (mi * fl (t / 100)) - md) \<le> 0")
  case True
  then show ?thesis by (simp add: calculateMaxPriceForDti_def Let_def)
next
  case False
  have "\<exists>x. priceLoop (Suc 19) (fl (fl (mi * fl (t / 100)) - md)) (Fin dp) (Fin 300000) = Fin x \<and>
          100000 \<le> x \<and> x \<le> 2000000"
    using assms False by (rule priceLoop_clamped) simp
  then obtain x where x: "priceLoop 20 (fl (fl (mi * fl (t / 100)) - md)) (Fin dp) 300000 = Fin x"
    "100000 \<le> x" "x \<le> 2000000"
    by auto
  have "calculateMaxPriceForDti mi md t (Fin dp) = js_round (Fin x / 5000) * 5000"
    using False unfolding calculateMaxPriceForDti_def Let_def x(1) by simp
  then show ?thesis using round5000 [OF x(2,3)] by simp
qed

section \<open>Sweet spot on resolved numbers\<close>

text \<open>
  When the income, debt and price tokens resolve to numbers, the recommended price is at
  most the resolved target price.
\<close>

lemma fl_dti_finite: "\<exists>y. fl (36 / 100) = Fin y" "\<exists>y. fl (43 / 100) = Fin y"
proof -
  have "fl (Fin (36 / 100)) =
          Fin (pow2 (- 2 - 52) * of_int (roundHalfEven (36 / 100 / pow2 (- 2 - 52))))"
    by (rule fl_pos) (simp_all add: binade_def compute_floorlog pow2_def roundHalfEven_def Let_def)
  then show "\<exists>y. fl (36 / 100) = Fin y" by simp
  have "fl (Fin (43 / 100)) =
          Fin (pow2 (- 2 - 52) * of_int (roundHalfEven (43 / 100 / pow2 (- 2 - 52))))"
    by (rule fl_pos) (simp_all add: binade_def compute_floorlog pow2_def roundHalfEven_def Let_def)
  then show "\<exists>y. fl (43 / 100) = Fin y" by simp
qed

lemma budget_not_nan:
  "fl (fl (Fin mi * fl (36 / 100)) - Fin md) \<noteq> NaN"
  "fl (fl (Fin mi * fl (43 / 100)) - Fin md) \<noteq> NaN"
proof -
  obtain y where y: "fl (36 / 100) = Fin y" using fl_dti_finite(1) by blast
  show "fl (fl (Fin mi * fl (36 / 100)) - Fin md) \<noteq> NaN"
    unfolding y fin_mul by (intro fl_not_nan sub_fin_not_nan fl_fin_not_nan)
  obtain z where z: "fl (43 / 100) = Fin z" using fl_dti_finite(2) by blast
  show "fl (fl (Fin mi * fl (43 / 100)) - Fin md) \<noteq> NaN"
    unfolding z fin_mul by (intro fl_not_nan sub_fin_not_nan fl_fin_not_nan)
qed

lemma maxPrice_multiple:
  "\<exists>k::int. calculateMaxPriceForDti (Fin mi) (Fin md) 36 0.035 = Fin (5000 * of_int k)"
  "\<exists>k::int. calculateMaxPriceForDti (Fin mi) (Fin md) 43 0.035 = Fin (5000 * of_int k)"
proof -
  have d: "(0.035 :: jsnum) = Fin 0.035" by simp
  have z: "(0 :: jsnum) = Fin (5000 * of_int 0)" by simp
  show "\<exists>k::int. calculateMaxPriceForDti (Fin mi) (Fin md) 36 0.035 = Fin (5000 * of_int k)"
    unfolding d using calculateMaxPriceForDti_range [OF budget_not_nan(1), of mi md "0.035"] z
    by metis
  show "\<exists>k::int. calculateMaxPriceForDti (Fin mi) (Fin md) 43 0.035 = Fin (5000 * of_int k)"
    unfolding d using calculateMaxPriceForDti_range [OF budget_not_nan(2), of mi md "0.035"] z
    by metis
qed

lemma round5000_id:
  "js_round (Fin (5000 * of_int k) / Fin 5000) * Fin 5000 = Fin (5000 * of_int k)"
  by simp

lemma price_multiple:
  "\<not> inheritedToken t \<Longrightarrow> \<exists>k::int. toNumber (getPriceAmount t) = Fin (5000 * of_int k)"
proof -
  assume "\<not> inheritedToken t"
  then have "toNumber (getPriceAmount t) \<in> Fin ` {350000, 450000, 550000, 650000, 750000,
      850000, 950000, 1200000, 500000}"
    by (simp add: price_resolved)
  moreover have "(350000::real) = 5000 * of_int 70" "(450000::real) = 5000 * of_int 90"
    "(550000::real) = 5000 * of_int 110" "(650000::real) = 5000 * of_int 130"
    "(750000::real) = 5000 * of_int 150" "(850000::real) = 5000 * of_int 170"
    "(950000::real) = 5000 * of_int 190" "(1200000::real) = 5000 * of_int 240"
    "(500000::real) = 5000 * of_int 100"
    by simp_all
  ultimately show ?thesis by (elim imageE insertE emptyE) (simp only:, blast)+
qed

lemma calculateSweetSpot_recommended:
  "ss_recommendedPrice (calculateSweetSpot mi md saved tp input) =
     js_round ((if tp \<le> calculateMaxPriceForDti mi md 36 0.035 then tp
                else if tp \<le> calculateMaxPriceForDti mi md 43 0.035
                then calculateMaxPriceForDti mi md 36 0.035
                else calculateMaxPriceForDti mi md 43 0.035) / 5000) * 5000"
  by (simp add: calculateSweetSpot_def Let_def)

lemma sweetSpot_le_target:
  assumes "\<not> inheritedToken (in_annualIncome input)"
    and "\<not> inheritedToken (in_monthlyDebts input)"
    and "\<not> inheritedToken (in_priceRange input)"
  shows "ss_recommendedPrice (sr_sweetSpot (calculateScore input)) \<le>
           toNumber (getPriceAmount (in_priceRange input))"
proof -
  obtain x where mi: "toNumber (getIncomeAmount (in_annualIncome input)) / 12 = Fin (x / 12)"
    using resolved_income_positive [OF assms(1)] by blast
  obtain d where md: "toNumber (getMonthlyDebtAmount (in_monthlyDebts input)) = Fin d"
    using assms(2) by (simp add: monthlyDebt_resolved)
  obtain k :: int where tp: "toNumber (getPriceAmount (in_priceRange input)) = Fin (5000 * of_int k)"
    using price_multiple [OF assms(3)] by blast
  obtain a :: int where a: "calculateMaxPriceForDti (Fin (x / 12)) (Fin d) 36 0.035 = Fin (5000 * of_int a)"
    using maxPrice_multiple(1) by blast
  obtain b :: int where b: "calculateMaxPriceForDti (Fin (x / 12)) (Fin d) 43 0.035 = Fin (5000 * of_int b)"
    using maxPrice_multiple(2) by blast
  show ?thesis
    unfolding calculateScore_sweetSpot calculateSweetSpot_recommended mi md tp a b
    by (simp del: fin_div fin_mul add: round5000_id)
qed

section \<open>Primary blocker on resolved numbers\<close>

text \<open>
  When all five range tokens resolve to numbers (or, for the credit range, to \<^verbatim>\<open>null\<close>),
  a primary blocker carries between one and three solutions.
\<close>

lemma js_round_gt: "Fin (of_int n) < js_round (Fin x) \<longleftrightarrow> of_int n + 1 / 2 \<le> x"
proof -
  have "Fin (of_int n) < js_round (Fin x) \<longleftrightarrow> n + 1 \<le> \<lfloor>x + 1 / 2\<rfloor>" by auto
  also have "\<dots> \<longleftrightarrow> of_int (n + 1) \<le> x + 1 / 2" by (rule le_floor_iff)
  also have "\<dots> \<longleftrightarrow> of_int n + 1 / 2 \<le> x" by auto
  finally show ?thesis .
qed

lemma js_round_gt_50: "Fin 50 < js_round (Fin x) \<longleftrightarrow> 50.5 \<le> x"
  using js_round_gt [of 50 x] by simp

lemma js_round_gt_0: "Fin 0 < js_round (Fin x) \<longleftrightarrow> 0.5 \<le> x"
  using js_round_gt [of 0 x] by simp

lemma severe_dti_income:
  assumes "3 \<le> mi" and "calculateCurrentDti (Fin mi) (Fin md) (Fin pay) > 50"
  shows "calculateIncomeForDti (Fin mi) (Fin md) (Fin pay) 43 > 0"
proof -
  have pos: "0 < mi" using assms(1) by simp
  have "Fin 50 < js_round (Fin ((pay + md) / mi * 100))"
    using assms(2) pos by (simp add: calculateCurrentDti_def)
  then have "50.5 \<le> (pay + md) / mi * 100" by (simp only: js_round_gt_50)
  then have "50.5 * mi \<le> (pay + md) * 100" using pos by (simp add: pos_le_divide_eq)
  then have "0.5 \<le> (pay + md) / (43 / 100) - mi" using assms(1) by (simp add: field_simps)
  then have "Fin 0 < js_round (Fin ((pay + md) / (43 / 100) - mi))" by (simp only: js_round_gt_0)
  then show ?thesis by (simp add: calculateIncomeForDti_def Let_def)
qed

lemma fha_eligible:
  "dpa_fha (checkDPAEligibility cs ai tp ftb vs) \<longleftrightarrow> toNumber (orElse cs (Number 650)) \<ge> 500"
  by (simp add: checkDPAEligibility_def Let_def fha_minCreditScore10Down_def)

lemma thin_down_payment:
  assumes "calculateDownPaymentPoints (Fin saved) (Fin tp) vs \<le> 7"
    and "\<not> isVeteranEligible vs" and "0 < tp"
  shows "Fin tp * 0.05 - Fin saved > 0"
proof -
  have "saved / tp * 100 < 5"
    using assms by (simp add: calculateDownPaymentPoints_def Let_def split: if_splits)
  then show ?thesis using assms(3) by (simp add: pos_divide_less_eq)
qed

lemma detectPrimaryBlocker_solutions:
  assumes det: "detectPrimaryBlocker cs cp dtip
      (calculateDownPaymentPoints (Fin saved) (Fin tp) vs) (Fin mi) (Fin md) (Fin tp) (Fin saved)
      vs (Fin ai) ftb = Some b"
    and mi: "3 \<le> mi" and tp: "0 < tp"
    and fha: "toNumber (orElse cs (Number 650)) \<ge> 500"
  shows "1 \<le> length (pb_solutions b) \<and> length (pb_solutions b) \<le> 3"
proof -
  have mi0: "mi \<noteq> 0" using mi by simp
  define c :: real where "c = of_int \<lfloor>(tp * payRate + 100 + md) / mi * 100 + 1 / 2\<rfloor>"
  have pay: "estimateMonthlyPayment (Fin tp) 0.035 = Fin (tp * payRate + 100)"
    by (rule estimateMonthlyPayment_default)
  have cur: "calculateCurrentDti (Fin mi) (Fin md) (Fin (tp * payRate + 100)) = Fin c"
    using mi0 by (simp add: calculateCurrentDti_def c_def)
  let ?dpp = "calculateDownPaymentPoints (Fin saved) (Fin tp) vs"
  let ?min = "if isVeteranEligible vs then 0 else Fin tp * 0.035"
  consider (severe) "c > 50" | (moderate) "\<not> c > 50" "c > 43"
    | (shortfall) "\<not> c > 43" "Fin saved < ?min"
    | (thin) "\<not> c > 43" "\<not> Fin saved < ?min" "?dpp \<le> 7" "\<not> isVeteranEligible vs"
    | (credit) "\<not> c > 43" "\<not> Fin saved < ?min" "\<not> (?dpp \<le> 7 \<and> \<not> isVeteranEligible vs)"
    by linarith
  then show ?thesis
  proof cases
    case severe
    have "calculateCurrentDti (Fin mi) (Fin md) (Fin (tp * payRate + 100)) > 50"
      unfolding cur using severe by simp
    then have inc: "calculateIncomeForDti (Fin mi) (Fin md) (Fin (tp * payRate + 100)) 43 > 0"
      by (rule severe_dti_income [OF mi])
    from det severe inc show ?thesis
      unfolding detectPrimaryBlocker_def pay cur Let_def
      by (auto split: if_splits)
  next
    case moderate
    from det moderate fha show ?thesis
      unfolding detectPrimaryBlocker_def pay cur Let_def
      by (auto simp: fha_eligible split: if_splits)
  next
    case shortfall
    from det shortfall show ?thesis
      unfolding detectPrimaryBlocker_def pay cur Let_def
      by (auto split: if_splits)
  next
    case thin
    have need: "Fin tp * 0.05 - Fin saved > 0"
      using thin_down_payment [OF thin(3) thin(4) tp] .
    from det thin need show ?thesis
      unfolding detectPrimaryBlocker_def pay cur Let_def
      by (auto split: if_splits)
  next
    case credit
    from det credit show ?thesis
      unfolding detectPrimaryBlocker_def pay cur Let_def
      by (auto split: if_splits)
  qed
qed

lemma credit_fha:
  "\<not> inheritedToken t \<Longrightarrow> toNumber (orElse (getCreditScore t) (Number 650)) \<ge> 500"
  by (simp add: credit_resolved orElse_def)

lemma primaryBlocker_solutions_resolved:
  assumes "\<not> inheritedToken (in_creditScoreRange input)"
    and "\<not> inheritedToken (in_annualIncome input)"
    and "\<not> inheritedToken (in_priceRange input)"
    and "\<not> inheritedToken (in_downPayment input)"
    and "\<not> inheritedToken (in_monthlyDebts input)"
    and "sr_primaryBlocker (calculateScore input) = Some b"
  shows "1 \<le> length (pb_solutions b) \<and> length (pb_solutions b) \<le> 3"
proof -
  obtain x where x: "toNumber (getIncomeAmount (in_annualIncome input)) = Fin x" "36 \<le> x"
    using assms(2) by (simp add: income_resolved)
  then have mi: "toNumber (getIncomeAmount (in_annualIncome input)) / 12 = Fin (x / 12)"
    "3 \<le> x / 12"
    by simp_all
  obtain tp where tp: "toNumber (getPriceAmount (in_priceRange input)) = Fin tp" "0 < tp"
    using assms(3) by (simp add: price_resolved)
  obtain s where s: "toNumber (getDownPaymentAmount (in_downPayment input)) = Fin s"
    using assms(4) by (simp add: downPayment_resolved)
  obtain d where d: "toNumber (getMonthlyDebtAmount (in_monthlyDebts input)) = Fin d"
    using assms(5) by (simp add: monthlyDebt_resolved)
  have "detectPrimaryBlocker (getCreditScore (in_creditScoreRange input))
      (b_credit (sr_breakdown (calculateScore input)))
      (b_dti (sr_breakdown (calculateScore input)))
      (calculateDownPaymentPoints (Fin s) (Fin tp) (in_veteranStatus input))
      (Fin (x / 12)) (Fin d) (Fin tp) (Fin s) (in_veteranStatus input) (Fin x)
      (in_firstTimeBuyer input) = Some b"
    using assms(6) unfolding calculateScore_primaryBlocker mi(1) tp(1) s d x(1)
    by (simp add: calculateScore_breakdown tp(1) s)
  then show ?thesis
    using mi(2) tp(2) credit_fha [OF assms(1)] by (rule detectPrimaryBlocker_solutions)
qed

end
